theory Spec2Isabelle
  imports Complex_Main
begin

section \<open>Expense tracker bot: the webhook handler of api/index.py\<close>

text \<open>
  The program is one Python module: a webhook handler that classifies an inbound chat
  update, asks an extraction service for a structured expense, stores it, and a report
  generator that sums stored expenses over a time window. The external services (chat
  transport, extraction service, document store, clock) are parameters of the model;
  every call to one of them is recorded in a trace of events.
\<close>

subsection \<open>Exceptions\<close>

text \<open>
  A Python exception: the name of its class and the text \<open>str(e)\<close> gives. The class
  names are Python's. The text of a KeyError is the key in quotes, as Python prints it;
  the other texts are shortened: Python's also name the type of the offending value or
  quote the offending string.
\<close>

datatype exn = Exn (exn_type: string) (exn_str: string)

definition KeyError :: "string \<Rightarrow> exn" where
  "KeyError k = Exn ''KeyError'' ([CHR 0x27] @ k @ [CHR 0x27])"

definition TypeError :: "string \<Rightarrow> exn" where
  "TypeError m = Exn ''TypeError'' m"

definition AttributeError :: "string \<Rightarrow> exn" where
  "AttributeError m = Exn ''AttributeError'' m"

definition IndexError :: "string \<Rightarrow> exn" where
  "IndexError m = Exn ''IndexError'' m"

definition ValueError :: "string \<Rightarrow> exn" where
  "ValueError m = Exn ''ValueError'' m"

definition OverflowError :: "string \<Rightarrow> exn" where
  "OverflowError m = Exn ''OverflowError'' m"

definition ZeroDivisionError :: "string \<Rightarrow> exn" where
  "ZeroDivisionError m = Exn ''ZeroDivisionError'' m"

subsection \<open>Calendar dates\<close>

text \<open>
  A \<open>datetime.date\<close> is represented by its proleptic Gregorian ordinal
  (\<open>date.toordinal()\<close>: day 1 is 0001-01-01, a Monday); the library keeps dates
  between \<open>date.min\<close> (ordinal 1) and \<open>date.max\<close> (9999-12-31, ordinal 3652059).
  A \<open>datetime\<close> adds the time of day.
\<close>

datatype date = Date (toordinal: int)

definition MINORDINAL :: int where
  "MINORDINAL = 1"

definition MAXORDINAL :: int where
  "MAXORDINAL = 3652059"

definition valid_date :: "date \<Rightarrow> bool" where
  "valid_date d \<longleftrightarrow> MINORDINAL \<le> toordinal d \<and> toordinal d \<le> MAXORDINAL"

text \<open>\<open>date.weekday()\<close>: Monday is 0, Sunday is 6.\<close>

definition weekday :: "date \<Rightarrow> int" where
  "weekday d = (toordinal d + 6) mod 7"

text \<open>\<open>d - timedelta(days=n)\<close>: raises OverflowError outside the supported range.\<close>

definition date_minus_days :: "date \<Rightarrow> int \<Rightarrow> exn + date" where
  "date_minus_days d n =
     (let o' = toordinal d - n
      in if MINORDINAL \<le> o' \<and> o' \<le> MAXORDINAL then Inr (Date o')
         else Inl (OverflowError ''date value out of range''))"

definition is_leap :: "int \<Rightarrow> bool" where
  "is_leap year \<longleftrightarrow> year mod 4 = 0 \<and> (year mod 100 \<noteq> 0 \<or> year mod 400 = 0)"

definition days_before_year :: "int \<Rightarrow> int" where
  "days_before_year year =
     (let y = year - 1 in y * 365 + y div 4 - y div 100 + y div 400)"

definition DAYS_IN_MONTH :: "int list" where
  "DAYS_IN_MONTH = [31, 28, 31, 30, 31, 30, 31, 31, 30, 31, 30, 31]"

definition days_in_month :: "int \<Rightarrow> int \<Rightarrow> int" where
  "days_in_month year month =
     (if month = 2 \<and> is_leap year then 29 else DAYS_IN_MONTH ! nat (month - 1))"

definition days_before_month :: "int \<Rightarrow> int \<Rightarrow> int" where
  "days_before_month year month =
     sum_list (take (nat (month - 1)) DAYS_IN_MONTH)
       + (if month > 2 \<and> is_leap year then 1 else 0)"

definition ymd2ord :: "int \<Rightarrow> int \<Rightarrow> int \<Rightarrow> int" where
  "ymd2ord year month day = days_before_year year + days_before_month year month + day"

text \<open>The library's conversion of an ordinal to year, month and day.\<close>

definition ord2ymd :: "int \<Rightarrow> int \<times> int \<times> int" where
  "ord2ymd n0 =
     (let n = n0 - 1;
          n400 = n div 146097; n = n mod 146097;
          n100 = n div 36524; n = n mod 36524;
          n4 = n div 1461; n = n mod 1461;
          n1 = n div 365; n = n mod 365;
          year = n400 * 400 + 1 + n100 * 100 + n4 * 4 + n1
      in if n1 = 4 \<or> n100 = 4 then (year - 1, 12, 31)
         else
           let leapyear = (n1 = 3 \<and> (n4 \<noteq> 24 \<or> n100 = 3));
               month = (n + 50) div 32;
               preceding = sum_list (take (nat (month - 1)) DAYS_IN_MONTH)
                             + (if month > 2 \<and> leapyear then 1 else 0)
           in if preceding > n
              then let month' = month - 1;
                       preceding' = preceding
                         - (DAYS_IN_MONTH ! nat (month' - 1)
                            + (if month' = 2 \<and> leapyear then 1 else 0))
                   in (year, month', n - preceding' + 1)
              else (year, month, n - preceding + 1))"

text \<open>\<open>d.replace(day=1)\<close>: the first day of the month of \<open>d\<close>.\<close>

definition replace_day1 :: "date \<Rightarrow> date" where
  "replace_day1 d = (case ord2ymd (toordinal d) of (y, m, _) \<Rightarrow> Date (ymd2ord y m 1))"

record datetime =
  dt_date :: date
  dt_hour :: nat
  dt_minute :: nat
  dt_second :: nat
  dt_microsecond :: nat

text \<open>\<open>datetime.combine(d, datetime.min.time())\<close> and \<open>datetime.combine(d, datetime.max.time())\<close>.\<close>

definition combine_min :: "date \<Rightarrow> datetime" where
  "combine_min d =
     \<lparr>dt_date = d, dt_hour = 0, dt_minute = 0, dt_second = 0, dt_microsecond = 0\<rparr>"

definition combine_max :: "date \<Rightarrow> datetime" where
  "combine_max d =
     \<lparr>dt_date = d, dt_hour = 23, dt_minute = 59, dt_second = 59, dt_microsecond = 999999\<rparr>"

subsection \<open>Decimal text of numbers\<close>

definition digit_char :: "nat \<Rightarrow> char" where
  "digit_char n = ''0123456789'' ! (n mod 10)"

fun str_nat :: "nat \<Rightarrow> string" where
  "str_nat n = (if n < 10 then [digit_char n] else str_nat (n div 10) @ [digit_char n])"

declare str_nat.simps [simp del]

text \<open>\<open>"%0wd" % n\<close> for a natural number: padded with zeros on the left to width \<open>w\<close>.\<close>

definition zero_pad :: "nat \<Rightarrow> nat \<Rightarrow> string" where
  "zero_pad w n = (let s = str_nat n in replicate (w - length s) (CHR ''0'') @ s)"

text \<open>\<open>datetime.isoformat()\<close>: the fraction is printed only when it is not zero.\<close>

definition isoformat :: "datetime \<Rightarrow> string" where
  "isoformat t =
     (case ord2ymd (toordinal (dt_date t)) of (y, m, d) \<Rightarrow>
        zero_pad 4 (nat y) @ ''-'' @ zero_pad 2 (nat m) @ ''-'' @ zero_pad 2 (nat d)
        @ ''T'' @ zero_pad 2 (dt_hour t) @ '':'' @ zero_pad 2 (dt_minute t)
        @ '':'' @ zero_pad 2 (dt_second t)
        @ (if dt_microsecond t \<noteq> 0 then ''.'' @ zero_pad 6 (dt_microsecond t) else []))"

subsection \<open>The time-window resolver\<close>

text \<open>
  \<open>get_query_time_range\<close> reads the clock (\<open>today\<close>, a parameter here), picks the
  first day of the window by the command and returns both ends as ISO-8601 text with a
  \<open>Z\<close> appended. \<open>window_dates\<close> is the part before the text is produced. For any
  other command the \<open>else\<close> branch calls the function again with \<open>/daily\<close> and binds
  \<open>start_date\<close> and \<open>end_date\<close> to the two strings that call returns; the last line
  then calls \<open>isoformat\<close> on a string, which raises AttributeError.
\<close>

definition window_dates :: "date \<Rightarrow> string \<Rightarrow> exn + (datetime \<times> datetime)" where
  "window_dates today command =
     (if command = ''/daily'' then Inr (combine_min today, combine_max today)
      else if command = ''/week'' then
        (case date_minus_days today (weekday today) of
           Inl e \<Rightarrow> Inl e
         | Inr monday \<Rightarrow> Inr (combine_min monday, combine_max today))
      else if command = ''/month'' then
        Inr (combine_min (replace_day1 today), combine_max today)
      else Inl (AttributeError ''str object has no attribute isoformat''))"

definition get_query_time_range :: "date \<Rightarrow> string \<Rightarrow> exn + (string \<times> string)" where
  "get_query_time_range today command =
     (case window_dates today command of
        Inl e \<Rightarrow> Inl e
      | Inr (start_date, end_date) \<Rightarrow>
          Inr (isoformat start_date @ ''Z'', isoformat end_date @ ''Z''))"

subsection \<open>JSON values and the operations the handler applies to them\<close>

text \<open>
  What \<open>json.loads\<close> and \<open>request.json()\<close> return. A dictionary is a list of pairs
  with distinct keys in insertion order. A string is a list of characters, one per code
  point, so \<open>length\<close> is Python's \<open>len\<close>. Numbers are exact reals: the rounding of
  binary floating point is not modelled.
\<close>

datatype jval =
    JNull
  | JBool bool
  | JNum real
  | JStr string
  | JArr "jval list"
  | JObj "(string \<times> jval) list"

definition bind_sum :: "exn + 'a \<Rightarrow> ('a \<Rightarrow> exn + 'b) \<Rightarrow> exn + 'b" where
  "bind_sum r f = (case r of Inl e \<Rightarrow> Inl e | Inr a \<Rightarrow> f a)"

text \<open>\<open>x[k]\<close> with a string key.\<close>

definition py_getitem :: "jval \<Rightarrow> string \<Rightarrow> exn + jval" where
  "py_getitem x k =
     (case x of
        JObj d \<Rightarrow> (case map_of d k of None \<Rightarrow> Inl (KeyError k) | Some v \<Rightarrow> Inr v)
      | JArr _ \<Rightarrow> Inl (TypeError ''list indices must be integers or slices, not str'')
      | JStr _ \<Rightarrow> Inl (TypeError ''string indices must be integers, not str'')
      | _ \<Rightarrow> Inl (TypeError ''object is not subscriptable''))"

fun is_prefix :: "string \<Rightarrow> string \<Rightarrow> bool" where
  "is_prefix [] s = True"
| "is_prefix (c # cs) [] = False"
| "is_prefix (c # cs) (d # ds) = (c = d \<and> is_prefix cs ds)"

fun is_infix :: "string \<Rightarrow> string \<Rightarrow> bool" where
  "is_infix k [] = (k = [])"
| "is_infix k (c # cs) = (is_prefix k (c # cs) \<or> is_infix k cs)"

text \<open>\<open>k in x\<close> with a string \<open>k\<close>: a key of a dictionary, an element of a list, a substring of a string.\<close>

definition py_contains :: "string \<Rightarrow> jval \<Rightarrow> exn + bool" where
  "py_contains k x =
     (case x of
        JObj d \<Rightarrow> Inr (map_of d k \<noteq> None)
      | JArr xs \<Rightarrow> Inr (JStr k \<in> set xs)
      | JStr s \<Rightarrow> Inr (is_infix k s)
      | _ \<Rightarrow> Inl (TypeError ''argument is not iterable''))"

text \<open>\<open>x.get(k, default)\<close>: only a dictionary has the method.\<close>

definition py_get :: "jval \<Rightarrow> string \<Rightarrow> jval \<Rightarrow> exn + jval" where
  "py_get x k dflt =
     (case x of
        JObj d \<Rightarrow> Inr (case map_of d k of None \<Rightarrow> dflt | Some v \<Rightarrow> v)
      | _ \<Rightarrow> Inl (AttributeError ''object has no attribute get''))"

text \<open>\<open>x[-1]\<close>.\<close>

definition py_last :: "jval \<Rightarrow> exn + jval" where
  "py_last x =
     (case x of
        JArr xs \<Rightarrow> (if xs = [] then Inl (IndexError ''list index out of range'') else Inr (last xs))
      | JStr s \<Rightarrow> (if s = [] then Inl (IndexError ''string index out of range'')
                   else Inr (JStr [last s]))
      | JObj d \<Rightarrow> Inl (Exn ''KeyError'' ''-1'')
      | _ \<Rightarrow> Inl (TypeError ''object is not subscriptable''))"

text \<open>\<open>x.startswith(p)\<close> and \<open>x.lower()\<close>: string methods.\<close>

definition py_startswith :: "jval \<Rightarrow> string \<Rightarrow> exn + bool" where
  "py_startswith x p =
     (case x of
        JStr s \<Rightarrow> Inr (is_prefix p s)
      | _ \<Rightarrow> Inl (AttributeError ''object has no attribute startswith''))"

text \<open>
  Letter case: characters here are 8 bits wide, and only the letters A to Z and a to z
  change case, as they do in Python; the letters beyond ASCII, which Python also maps,
  are left as they are.
\<close>

definition lower_char :: "char \<Rightarrow> char" where
  "lower_char c =
     (let n = of_char c :: nat in if 65 \<le> n \<and> n \<le> 90 then char_of (n + 32) else c)"

definition upper_char :: "char \<Rightarrow> char" where
  "upper_char c =
     (let n = of_char c :: nat in if 97 \<le> n \<and> n \<le> 122 then char_of (n - 32) else c)"

definition py_lower :: "jval \<Rightarrow> exn + string" where
  "py_lower x =
     (case x of
        JStr s \<Rightarrow> Inr (map lower_char s)
      | _ \<Rightarrow> Inl (AttributeError ''object has no attribute lower''))"

text \<open>\<open>s.capitalize()\<close>: the first character in upper case, the rest in lower case.\<close>

definition capitalize :: "string \<Rightarrow> string" where
  "capitalize s = (case s of [] \<Rightarrow> [] | c # cs \<Rightarrow> upper_char c # map lower_char cs)"

text \<open>\<open>len(x)\<close>.\<close>

definition py_len :: "jval \<Rightarrow> exn + nat" where
  "py_len x =
     (case x of
        JStr s \<Rightarrow> Inr (length s)
      | JArr xs \<Rightarrow> Inr (length xs)
      | JObj d \<Rightarrow> Inr (length d)
      | _ \<Rightarrow> Inl (TypeError ''object has no len()''))"

text \<open>The truth value of \<open>x\<close> in \<open>if x:\<close>.\<close>

definition py_truthy :: "jval \<Rightarrow> bool" where
  "py_truthy x =
     (case x of
        JNull \<Rightarrow> False
      | JBool b \<Rightarrow> b
      | JNum r \<Rightarrow> r \<noteq> 0
      | JStr s \<Rightarrow> s \<noteq> []
      | JArr xs \<Rightarrow> xs \<noteq> []
      | JObj d \<Rightarrow> d \<noteq> [])"

text \<open>\<open>x > n\<close> and \<open>x / d\<close> for a number \<open>n\<close>; a boolean counts as 0 or 1.\<close>

definition py_gt :: "jval \<Rightarrow> real \<Rightarrow> exn + bool" where
  "py_gt x n =
     (case x of
        JNum r \<Rightarrow> Inr (r > n)
      | JBool b \<Rightarrow> Inr ((if b then 1 else 0) > n)
      | _ \<Rightarrow> Inl (TypeError ''> not supported between these instances''))"

definition py_truediv :: "jval \<Rightarrow> real \<Rightarrow> exn + real" where
  "py_truediv x d =
     (case x of
        JNum r \<Rightarrow> Inr (r / d)
      | JBool b \<Rightarrow> Inr ((if b then 1 else 0) / d)
      | _ \<Rightarrow> Inl (TypeError ''unsupported operand type(s) for /''))"

subsection \<open>\<open>float(x)\<close>\<close>

text \<open>
  A Python float: a finite number, an infinity or not-a-number. \<open>float\<close> of a string
  strips surrounding white space and reads an optional sign followed by \<open>inf\<close>,
  \<open>infinity\<close> or \<open>nan\<close> in any letter case, or by a decimal number: digits (single
  underscores allowed between digits) with an optional point and an optional exponent.
  Anything else raises ValueError. The value is the exact decimal.
\<close>

datatype pyfloat = Finite real | PosInf | NegInf | NaN

definition is_digit :: "char \<Rightarrow> bool" where
  "is_digit c \<longleftrightarrow> (let n = of_char c :: nat in 48 \<le> n \<and> n \<le> 57)"

definition digit_val :: "char \<Rightarrow> nat" where
  "digit_val c = of_char c - 48"

definition is_space :: "char \<Rightarrow> bool" where
  "is_space c \<longleftrightarrow>
     (let n = of_char c :: nat
      in n = 32 \<or> (9 \<le> n \<and> n \<le> 13) \<or> (28 \<le> n \<and> n \<le> 31) \<or> n = 133 \<or> n = 160)"

definition strip :: "string \<Rightarrow> string" where
  "strip s = rev (dropWhile is_space (rev (dropWhile is_space s)))"

text \<open>
  \<open>more_digits acc s\<close> reads the rest of a digit part after its first digit: the digits
  read so far are \<open>acc\<close> (most significant first); it returns them with what is left.
\<close>

fun more_digits :: "nat list \<Rightarrow> string \<Rightarrow> nat list \<times> string" where
  "more_digits acc [] = (acc, [])"
| "more_digits acc [c] = (if is_digit c then (acc @ [digit_val c], []) else (acc, [c]))"
| "more_digits acc (c # d # ds) =
     (if is_digit c then more_digits (acc @ [digit_val c]) (d # ds)
      else if c = CHR ''_'' \<and> is_digit d then more_digits (acc @ [digit_val d]) ds
      else (acc, c # d # ds))"

definition digitpart :: "string \<Rightarrow> (nat list \<times> string) option" where
  "digitpart s =
     (case s of
        [] \<Rightarrow> None
      | c # cs \<Rightarrow> if is_digit c then Some (more_digits [digit_val c] cs) else None)"

definition digits_value :: "nat list \<Rightarrow> nat" where
  "digits_value ds = foldl (\<lambda>v d. 10 * v + d) 0 ds"

text \<open>The sign: \<open>True\<close> for a leading minus.\<close>

definition take_sign :: "string \<Rightarrow> bool \<times> string" where
  "take_sign s =
     (case s of
        c # cs \<Rightarrow> if c = CHR ''-'' then (True, cs) else if c = CHR ''+'' then (False, cs)
                  else (False, s)
      | [] \<Rightarrow> (False, s))"

text \<open>The number before the exponent: integer digits, fraction digits, and the rest.\<close>

definition take_number :: "string \<Rightarrow> (nat list \<times> nat list \<times> string) option" where
  "take_number s =
     (case digitpart s of
        Some (ip, r) \<Rightarrow>
          (case r of
             c # r' \<Rightarrow>
               if c = CHR ''.'' then
                 (case digitpart r' of
                    Some (fp, r'') \<Rightarrow> Some (ip, fp, r'')
                  | None \<Rightarrow> Some (ip, [], r'))
               else Some (ip, [], r)
           | [] \<Rightarrow> Some (ip, [], []))
      | None \<Rightarrow>
          (case s of
             c # r' \<Rightarrow>
               if c = CHR ''.'' then
                 (case digitpart r' of
                    Some (fp, r'') \<Rightarrow> Some ([], fp, r'')
                  | None \<Rightarrow> None)
               else None
           | [] \<Rightarrow> None))"

text \<open>The exponent, if any: its value, and the rest, which must be empty.\<close>

definition take_exponent :: "string \<Rightarrow> int option" where
  "take_exponent s =
     (case s of
        [] \<Rightarrow> Some 0
      | c # r \<Rightarrow>
          if c = CHR ''e'' \<or> c = CHR ''E'' then
            (case take_sign r of (neg, r') \<Rightarrow>
               (case digitpart r' of
                  Some (ds, []) \<Rightarrow>
                    Some (if neg then - int (digits_value ds) else int (digits_value ds))
                | _ \<Rightarrow> None))
          else None)"

definition scale10 :: "real \<Rightarrow> int \<Rightarrow> real" where
  "scale10 m e = (if 0 \<le> e then m * 10 ^ nat e else m / 10 ^ nat (- e))"

definition float_of_string :: "string \<Rightarrow> pyfloat option" where
  "float_of_string s0 =
     (case take_sign (strip s0) of (neg, s) \<Rightarrow>
        let w = map lower_char s
        in if w = ''inf'' \<or> w = ''infinity'' then Some (if neg then NegInf else PosInf)
           else if w = ''nan'' then Some NaN
           else
             (case take_number s of
                None \<Rightarrow> None
              | Some (ip, fp, r) \<Rightarrow>
                  (case take_exponent r of
                     None \<Rightarrow> None
                   | Some e \<Rightarrow>
                       let m = scale10 (real (digits_value (ip @ fp))) (e - int (length fp))
                       in Some (Finite (if neg then - m else m)))))"

definition py_float :: "jval \<Rightarrow> exn + pyfloat" where
  "py_float x =
     (case x of
        JStr s \<Rightarrow>
          (case float_of_string s of
             None \<Rightarrow> Inl (ValueError ''could not convert string to float'')
           | Some v \<Rightarrow> Inr v)
      | JNum r \<Rightarrow> Inr (Finite r)
      | JBool b \<Rightarrow> Inr (Finite (if b then 1 else 0))
      | _ \<Rightarrow> Inl (TypeError ''float() argument must be a string or a real number''))"

subsection \<open>External services, the trace of calls, and the handler's results\<close>

text \<open>
  A prompt part: image bytes with a MIME type, or a value appended as it is (the user's
  text or caption, or the default instruction).
\<close>

datatype part = PBytes string string | PRaw jval

record expense =
  exp_telegram_user_id :: jval
  exp_category :: jval
  exp_description :: jval
  exp_amount :: pyfloat
  exp_created_at :: string

datatype query =
    QEqual string jval
  | QGreaterThanEqual string string
  | QLessThanEqual string string
  | QLimit nat

text \<open>A stored document as the report reads it: its \<open>amount\<close> and its \<open>category\<close>.\<close>

record document =
  doc_amount :: real
  doc_category :: string

text \<open>
  Every request issued to an external service, in order, whether or not it succeeds:
  a chat message posted, the two requests of a file download, an extraction call, a
  document created, a query, a line logged.
\<close>

datatype event =
    Sent jval string
  | GetFile jval
  | Fetch jval
  | Extract "part list"
  | Created expense "string list"
  | Listed "query list"
  | Logged string

text \<open>
  The behaviour of the outside world during one delivery. A failing call raises; the
  store's answer to a query is the list of documents, or the exception raised by the
  call or by reading the answer. \<open>repr_json\<close> is \<open>str\<close> of a value that is neither a
  string, \<open>None\<close> nor a boolean.

  \<open>float_add\<close>, \<open>float_div\<close> and \<open>float_mul\<close> are Python's \<open>+\<close>, \<open>/\<close> and \<open>*\<close> on
  floats: each gives the double nearest to the exact result, so they are parameters
  constrained by \<open>double_arith\<close> below rather than the exact operations. A float is
  represented by the real number it denotes; a result beyond the range of doubles
  (Python's \<open>inf\<close>) has no representation here, so sums that overflow are outside the
  model.
\<close>

record env =
  post_raises :: "jval \<Rightarrow> string \<Rightarrow> exn option"
  get_file :: "jval \<Rightarrow> exn + jval"
  fetch :: "jval \<Rightarrow> exn + string"
  generate_content :: "part list \<Rightarrow> exn + jval"
  create_document :: "expense \<Rightarrow> string list \<Rightarrow> exn option"
  list_documents :: "query list \<Rightarrow> exn + document list"
  clock_now :: datetime
  clock_today :: date
  float_add :: "real \<Rightarrow> real \<Rightarrow> real"
  float_div :: "real \<Rightarrow> real \<Rightarrow> real"
  float_mul :: "real \<Rightarrow> real \<Rightarrow> real"
  repr_json :: "jval \<Rightarrow> string"

text \<open>
  What is known of double arithmetic on operands that are not negative: an addition is
  within the relative error \<open>u\<close> of the exact sum, a division and a multiplication are
  within the relative error \<open>u\<close> plus the absolute error \<open>eta\<close> of the exact result (the
  absolute part covers results too small to be normal doubles), and a quotient or a
  product is not negative. IEEE binary64 with rounding to nearest satisfies this on
  doubles, with \<open>u\<close> the power -53 of 2 and \<open>eta\<close> the power -1075 of 2, as long as no
  result overflows.
\<close>

definition double_arith :: "env \<Rightarrow> real \<Rightarrow> real \<Rightarrow> bool" where
  "double_arith env u eta \<longleftrightarrow>
     0 \<le> u \<and> u < 1 \<and> 0 \<le> eta
     \<and> (\<forall>x y. 0 \<le> x \<and> 0 \<le> y \<longrightarrow>
            (1 - u) * (x + y) \<le> float_add env x y
            \<and> float_add env x y \<le> (1 + u) * (x + y))
     \<and> (\<forall>x y. 0 \<le> x \<and> 0 < y \<longrightarrow>
            0 \<le> float_div env x y
            \<and> \<bar>float_div env x y - x / y\<bar> \<le> u * (x / y) + eta)
     \<and> (\<forall>x y. 0 \<le> x \<and> 0 \<le> y \<longrightarrow>
            0 \<le> float_mul env x y
            \<and> \<bar>float_mul env x y - x * y\<bar> \<le> u * (x * y) + eta)"

subsection \<open>Fixed-point text of a float\<close>

text \<open>
  \<open>f"{x:.nf}"\<close>: the exact value of the float rounded to \<open>n\<close> decimal places, a tie going
  to the even digit, printed with a minus sign when the float is negative. \<open>shown n x\<close>
  is the number that text denotes.
\<close>

definition round_half_even :: "real \<Rightarrow> int" where
  "round_half_even x =
     (let f = \<lfloor>x\<rfloor>; r = x - of_int f
      in if r < 1 / 2 then f else if 1 / 2 < r then f + 1 else if even f then f else f + 1)"


definition format_fixed :: "nat \<Rightarrow> real \<Rightarrow> string" where
  "format_fixed n x =
     (let k = nat (round_half_even (\<bar>x\<bar> * 10 ^ n))
      in (if x < 0 then ''-'' else [])
         @ str_nat (k div 10 ^ n)
         @ (if n = 0 then [] else ''.'' @ zero_pad n (k mod 10 ^ n)))"

definition format_f :: "nat \<Rightarrow> pyfloat \<Rightarrow> string" where
  "format_f n x =
     (case x of
        Finite v \<Rightarrow> format_fixed n v
      | PosInf \<Rightarrow> ''inf''
      | NegInf \<Rightarrow> ''-inf''
      | NaN \<Rightarrow> ''nan'')"

definition py_str :: "env \<Rightarrow> jval \<Rightarrow> string" where
  "py_str env x =
     (case x of
        JStr s \<Rightarrow> s
      | JNull \<Rightarrow> ''None''
      | JBool b \<Rightarrow> (if b then ''True'' else ''False'')
      | _ \<Rightarrow> repr_json env x)"

text \<open>A computation: from the trace so far to a value or an exception, and the trace after.\<close>

type_synonym 'a io = "event list \<Rightarrow> (exn + 'a) \<times> event list"

definition ret :: "'a \<Rightarrow> 'a io" where
  "ret a tr = (Inr a, tr)"

definition pure_io :: "exn + 'a \<Rightarrow> 'a io" where
  "pure_io r tr = (r, tr)"

definition call :: "event \<Rightarrow> exn + 'a \<Rightarrow> 'a io" where
  "call ev r tr = (r, tr @ [ev])"

definition bind_io :: "'a io \<Rightarrow> ('a \<Rightarrow> 'b io) \<Rightarrow> 'b io" where
  "bind_io m f tr = (case m tr of (Inl e, tr') \<Rightarrow> (Inl e, tr') | (Inr a, tr') \<Rightarrow> f a tr')"

definition try_except :: "'a io \<Rightarrow> (exn \<Rightarrow> 'a io) \<Rightarrow> 'a io" where
  "try_except m h tr = (case m tr of (Inl e, tr') \<Rightarrow> h e tr' | (Inr a, tr') \<Rightarrow> (Inr a, tr'))"

text \<open>The JSON body returned to the transport.\<close>

type_synonym ack = "(string \<times> string) list"

definition ack_ok :: ack where
  "ack_ok = [(''status'', ''ok'')]"

text \<open>Inside the handler: return this body now, or go on with a value.\<close>

datatype 'a flow = Return ack | Continue 'a

subsection \<open>Constants and message texts\<close>

definition MAX_FILE_SIZE_BYTES :: real where
  "MAX_FILE_SIZE_BYTES = 5 * 1024 * 1024"

definition MAX_TEXT_CHARS :: nat where
  "MAX_TEXT_CHARS = 500"

text \<open>
  The pictographs of the message texts. The source file holds each of them as a short run
  of characters (a pictograph whose bytes were read in another encoding), and that run
  is what the program sends; each constant is the UTF-8 encoding of the run as the file
  has it.
\<close>

definition WAVE :: string where
  "WAVE = map char_of [0xEF, 0xA3, 0xBF, 0xC3, 0xBC, 0xC3, 0xAB, 0xC3, 0xA3 :: nat]"

definition CHART :: string where
  "CHART = map char_of [0xEF, 0xA3, 0xBF, 0xC3, 0xBC, 0xC3, 0xAC, 0xC3, 0xA4 :: nat]"

definition CAMERA :: string where
  "CAMERA = map char_of [0xEF, 0xA3, 0xBF, 0xC3, 0xBC, 0xC3, 0xAC, 0xE2, 0x88, 0x8F :: nat]"

definition BALLOON :: string where
  "BALLOON = map char_of [0xEF, 0xA3, 0xBF, 0xC3, 0xBC, 0xC3, 0xAD, 0xC2, 0xA8 :: nat]"

definition CROSS :: string where
  "CROSS = map char_of [0xE2, 0x80, 0x9A, 0xC3, 0xB9, 0xC3, 0xA5 :: nat]"

definition WARNING :: string where
  "WARNING = map char_of [0xE2, 0x80, 0x9A, 0xC3, 0xB6, 0xE2, 0x80, 0xA0, 0xC3, 0x94, 0xE2, 0x88, 0x8F, 0xC3, 0xA8 :: nat]"

definition CRYING :: string where
  "CRYING = map char_of [0xEF, 0xA3, 0xBF, 0xC3, 0xBC, 0xC3, 0xB2, 0xE2, 0x89, 0xA0 :: nat]"

definition CHECK :: string where
  "CHECK = map char_of [0xE2, 0x80, 0x9A, 0xC3, 0xBA, 0xC3, 0x96 :: nat]"

definition RUPEE :: string where
  "RUPEE = map char_of [0xE2, 0x80, 0x9A, 0xC3, 0x87, 0xCF, 0x80 :: nat]"

definition PENSIVE :: string where
  "PENSIVE = map char_of [0xEF, 0xA3, 0xBF, 0xC3, 0xBC, 0xC3, 0xB2, 0xC3, 0xAE :: nat]"

definition BULLET :: string where
  "BULLET = map char_of [0xE2, 0x80, 0x9A, 0xC3, 0x84, 0xC2, 0xA2 :: nat]"

definition NL :: string where "NL = [char_of (10 :: nat)]"

definition welcome_message :: string where
  "welcome_message =
     WAVE @ '' *Welcome to your AI Expense Tracker!* '' @ CHART @ NL @ NL
     @ ''I help you track your spending effortlessly.'' @ NL @ NL
     @ ''**1. Record an Expense:**'' @ NL
     @ ''   - '' @ CAMERA @ '' **Upload** any photo of a bill or receipt.'' @ NL
     @ ''   - '' @ BALLOON
     @ '' **Type** in natural language (e.g., `220 pizza`, `paid 1500 for flight ticket`).''
     @ NL @ NL
     @ ''**2. Get Reports (Use the menu or type):**'' @ NL
     @ ''   - /daily: See today's spending.'' @ NL
     @ ''   - /week: See this week's spending.'' @ NL
     @ ''   - /month: See this month's spending.'' @ NL @ NL"

definition file_too_large_text :: "env \<Rightarrow> real \<Rightarrow> string" where
  "file_too_large_text env mb =
     CROSS @ '' *File Too Large!* The uploaded file size ('' @ format_f 2 (Finite mb)
     @ '' MB) exceeds the limit of ''
     @ format_f 0 (Finite (MAX_FILE_SIZE_BYTES / 1024 / 1024))
     @ '' MB. Please send a smaller file.''"

definition text_too_long_text :: "nat \<Rightarrow> string" where
  "text_too_long_text n =
     CROSS @ '' *Text Too Long!* Your input has '' @ str_nat n
     @ '' characters, exceeding the limit of '' @ str_nat MAX_TEXT_CHARS
     @ ''. Please summarize your expense details.''"

definition caption_too_long_text :: "nat \<Rightarrow> string" where
  "caption_too_long_text n =
     CROSS @ '' *Caption Too Long!* Your caption has '' @ str_nat n
     @ '' characters, exceeding the limit of '' @ str_nat MAX_TEXT_CHARS
     @ ''. Please shorten your description.''"

definition input_error_text :: string where
  "input_error_text =
     ''*Input Error*: Please send a bill image or write your expense (e.g., '150 food pizza').''"

definition download_error_text :: "exn \<Rightarrow> string" where
  "download_error_text e =
     WARNING
     @ '' *File Download Error*: Could not retrieve file from Telegram. Check Vercel logs. Details: ''
     @ exn_str e"

definition default_instruction :: string where
  "default_instruction = ''Extract expense details from this bill/receipt image.''"

definition extraction_failed_text :: "env \<Rightarrow> jval \<Rightarrow> string" where
  "extraction_failed_text env d =
     ''*Extraction Failed!* '' @ CRYING @ '' '' @ NL @ ''_Details_: '' @ py_str env d"

definition expense_saved_text :: "env \<Rightarrow> expense \<Rightarrow> string" where
  "expense_saved_text env expense_data =
     CHECK @ '' *Expense Saved!* '' @ NL @ NL
     @ ''*Category*: `'' @ py_str env (exp_category expense_data) @ ''`'' @ NL
     @ ''*Amount*: '' @ RUPEE @ ''`'' @ format_f 2 (exp_amount expense_data) @ ''`'' @ NL
     @ ''*Description*: `'' @ py_str env (exp_description expense_data) @ ''`'' @ NL @ NL"

definition unexpected_error_text :: "exn \<Rightarrow> string" where
  "unexpected_error_text e =
     ''An unexpected error occurred: '' @ exn_type e @ '': '' @ exn_str e"

definition no_expenses_text :: "string \<Rightarrow> string" where
  "no_expenses_text time_period =
     PENSIVE @ '' No expenses found for the *'' @ time_period @ ''* period.''"

definition report_error_text :: "exn \<Rightarrow> string" where
  "report_error_text e =
     WARNING @ '' *Report Error*: Failed to fetch data from Appwrite. Details: '' @ exn_str e"

subsection \<open>Helper functions of the module\<close>

definition send_telegram_message :: "env \<Rightarrow> jval \<Rightarrow> string \<Rightarrow> unit io" where
  "send_telegram_message env chat_id text =
     call (Sent chat_id text)
       (case post_raises env chat_id text of Some e \<Rightarrow> Inl e | None \<Rightarrow> Inr ())"

text \<open>Two requests: the file's path, then its bytes (a bad status raises).\<close>

definition download_telegram_file :: "env \<Rightarrow> jval \<Rightarrow> string io" where
  "download_telegram_file env file_id =
     bind_io (call (GetFile file_id) (get_file env file_id)) (\<lambda>response.
     bind_io (pure_io (bind_sum (py_getitem response ''result'')
                                (\<lambda>r. py_getitem r ''file_path''))) (\<lambda>file_path.
     call (Fetch file_path) (fetch env file_path)))"

text \<open>The extraction call and \<open>json.loads\<close> of its answer.\<close>

definition extract_expense_details :: "env \<Rightarrow> part list \<Rightarrow> jval io" where
  "extract_expense_details env parts = call (Extract parts) (generate_content env parts)"

subsection \<open>The report\<close>

text \<open>\<open>d[k] = v\<close> on a dictionary kept in insertion order.\<close>

fun dict_set :: "(string \<times> real) list \<Rightarrow> string \<Rightarrow> real \<Rightarrow> (string \<times> real) list" where
  "dict_set [] k v = [(k, v)]"
| "dict_set ((k', v') # d) k v = (if k' = k then (k, v) # d else (k', v') # dict_set d k v)"

definition dict_get_or :: "(string \<times> real) list \<Rightarrow> string \<Rightarrow> real \<Rightarrow> real" where
  "dict_get_or d k dflt = (case map_of d k of None \<Rightarrow> dflt | Some v \<Rightarrow> v)"

text \<open>
  The loop over the documents: the running total and the totals by category, each
  addition being a float addition.
\<close>

fun accumulate ::
  "env \<Rightarrow> document list \<Rightarrow> real \<times> (string \<times> real) list
     \<Rightarrow> real \<times> (string \<times> real) list" where
  "accumulate env [] acc = acc"
| "accumulate env (ex # rest) (total_spent, category_totals) =
     accumulate env rest
       (float_add env total_spent (doc_amount ex),
        dict_set category_totals (doc_category ex)
          (float_add env (dict_get_or category_totals (doc_category ex) 0) (doc_amount ex)))"

text \<open>
  \<open>sorted(items, key=lambda item: item[1], reverse=True)\<close>: a stable sort by
  descending total, equal totals keeping their order.
\<close>

definition sorted_items :: "(string \<times> real) list \<Rightarrow> (string \<times> real) list" where
  "sorted_items items = sort_key (\<lambda>item. - snd item) items"

text \<open>
  The loop over the sorted categories: each line's category, total and percentage. The
  division raises when the grand total is zero.
\<close>

fun breakdown ::
  "env \<Rightarrow> real \<Rightarrow> (string \<times> real) list \<Rightarrow> exn + (string \<times> real \<times> real) list" where
  "breakdown env total_spent [] = Inr []"
| "breakdown env total_spent ((category, subtotal) # rest) =
     (if total_spent = 0 then Inl (ZeroDivisionError ''float division by zero'')
      else
        (case breakdown env total_spent rest of
           Inl e \<Rightarrow> Inl e
         | Inr ls \<Rightarrow>
             Inr ((category, subtotal,
                   float_mul env (float_div env subtotal total_spent) 100) # ls)))"

text \<open>The aggregation of lines 302 to 319: the grand total and the lines of the breakdown.\<close>

definition aggregate ::
  "env \<Rightarrow> document list \<Rightarrow> exn + (real \<times> (string \<times> real \<times> real) list)" where
  "aggregate env expenses =
     (case accumulate env expenses (0, []) of (total_spent, category_totals) \<Rightarrow>
        (case breakdown env total_spent (sorted_items category_totals) of
           Inl e \<Rightarrow> Inl e
         | Inr ls \<Rightarrow> Inr (total_spent, ls)))"

definition report_line :: "string \<times> real \<times> real \<Rightarrow> string" where
  "report_line l =
     (case l of (category, subtotal, percentage) \<Rightarrow>
        '' '' @ BULLET @ '' '' @ category @ '': '' @ RUPEE @ ''`''
        @ format_f 2 (Finite subtotal) @ ''` (`'' @ format_f 1 (Finite percentage)
        @ ''`%)'' @ NL)"

definition report_text :: "env \<Rightarrow> string \<Rightarrow> document list \<Rightarrow> exn + string" where
  "report_text env time_period expenses =
     (case aggregate env expenses of
        Inl e \<Rightarrow> Inl e
      | Inr (total_spent, ls) \<Rightarrow>
          Inr (CHART @ '' *'' @ time_period @ '' Expense Report* '' @ CHART @ NL
               @ ''Total Expenses: '' @ RUPEE @ ''`'' @ format_f 2 (Finite total_spent)
               @ ''`'' @ NL @ NL
               @ ''*Category Breakdown:*'' @ NL
               @ concat (map report_line ls)))"

text \<open>The filters of the query: the user, the window and the limit of 20 documents.\<close>

definition report_queries :: "jval \<Rightarrow> string \<Rightarrow> string \<Rightarrow> query list" where
  "report_queries user_id start_time end_time =
     [QEqual ''telegram_user_id'' user_id,
      QGreaterThanEqual ''created_at'' start_time,
      QLessThanEqual ''created_at'' end_time,
      QLimit 20]"


definition generate_report :: "env \<Rightarrow> jval \<Rightarrow> jval \<Rightarrow> string \<Rightarrow> ack io" where
  "generate_report env chat_id user_id command =
     bind_io (pure_io (get_query_time_range (clock_today env) command)) (\<lambda>(start_time, end_time).
     let time_period = capitalize (drop 1 command);
         queries = report_queries user_id start_time end_time
     in try_except
          (bind_io (call (Listed queries) (list_documents env queries)) (\<lambda>expenses.
             if expenses = [] then
               bind_io (send_telegram_message env chat_id (no_expenses_text time_period))
                 (\<lambda>_. ret ack_ok)
             else
               bind_io (pure_io (report_text env time_period expenses)) (\<lambda>text.
               bind_io (send_telegram_message env chat_id text) (\<lambda>_. ret ack_ok))))
          (\<lambda>e. bind_io (send_telegram_message env chat_id (report_error_text e))
                  (\<lambda>_. ret ack_ok)))"

subsection \<open>The webhook handler\<close>

text \<open>Part A, the commands: an answer when a command was handled, nothing otherwise.\<close>

definition command_section :: "env \<Rightarrow> jval \<Rightarrow> jval \<Rightarrow> jval \<Rightarrow> ack option io" where
  "command_section env message chat_id user_id =
     bind_io (pure_io (py_contains ''text'' message)) (\<lambda>has_text.
     if \<not> has_text then ret None
     else
       bind_io (pure_io (bind_sum (py_getitem message ''text'')
                                  (\<lambda>t. py_startswith t ''/''))) (\<lambda>is_command.
       if \<not> is_command then ret None
       else
         bind_io (pure_io (bind_sum (py_getitem message ''text'') py_lower)) (\<lambda>command.
         if command = ''/start'' then
           bind_io (send_telegram_message env chat_id welcome_message) (\<lambda>_. ret (Some ack_ok))
         else if command \<in> set [''/daily'', ''/week'', ''/month''] then
           bind_io (generate_report env chat_id user_id command) (\<lambda>a. ret (Some a))
         else ret None)))"

text \<open>
  The size check of a photo or document and the capture of its file handle and caption:
  the prompt parts so far, the file handle and the caption.
\<close>

definition attachment :: "env \<Rightarrow> jval \<Rightarrow> jval \<Rightarrow> jval \<Rightarrow> (part list \<times> jval \<times> jval) flow io" where
  "attachment env message chat_id data =
     bind_io (pure_io (bind_sum (py_get data ''file_size'' (JNum 0))
                                (\<lambda>size. py_gt size MAX_FILE_SIZE_BYTES))) (\<lambda>too_large.
     if too_large then
       bind_io (pure_io (bind_sum (py_get data ''file_size'' (JNum 0))
                                  (\<lambda>size. py_truediv size (1024 * 1024)))) (\<lambda>mb.
       bind_io (send_telegram_message env chat_id (file_too_large_text env mb))
         (\<lambda>_. ret (Return ack_ok)))
     else
       bind_io (pure_io (py_getitem data ''file_id'')) (\<lambda>file_id.
       bind_io (pure_io (py_get message ''caption'' JNull)) (\<lambda>caption_text.
       ret (Continue ([], file_id, caption_text)))))"

text \<open>Part B, first half: photo, document, text or none of them.\<close>

definition input_section :: "env \<Rightarrow> jval \<Rightarrow> jval \<Rightarrow> (part list \<times> jval \<times> jval) flow io" where
  "input_section env message chat_id =
     bind_io (pure_io (py_contains ''photo'' message)) (\<lambda>has_photo.
     if has_photo then
       bind_io (pure_io (bind_sum (py_getitem message ''photo'') py_last)) (\<lambda>photo_data.
       attachment env message chat_id photo_data)
     else
       bind_io (pure_io (py_contains ''document'' message)) (\<lambda>has_document.
       if has_document then
         bind_io (pure_io (py_getitem message ''document'')) (\<lambda>doc_data.
         attachment env message chat_id doc_data)
       else
         bind_io (pure_io (py_contains ''text'' message)) (\<lambda>has_text.
         if has_text then
           bind_io (pure_io (py_getitem message ''text'')) (\<lambda>text_input.
           bind_io (pure_io (py_len text_input)) (\<lambda>n.
           if n > MAX_TEXT_CHARS then
             bind_io (send_telegram_message env chat_id (text_too_long_text n))
               (\<lambda>_. ret (Return ack_ok))
           else ret (Continue ([PRaw text_input], JNull, JNull))))
         else
           bind_io (send_telegram_message env chat_id input_error_text)
             (\<lambda>_. ret (Return ack_ok)))))"

text \<open>Part B, second half: the download of the file, inside its own \<open>try\<close>.\<close>

definition download_section ::
  "env \<Rightarrow> jval \<Rightarrow> part list \<Rightarrow> jval \<Rightarrow> jval \<Rightarrow> part list flow io" where
  "download_section env chat_id gemini_parts file_id caption_text =
     (if py_truthy file_id then
        try_except
          (bind_io (download_telegram_file env file_id) (\<lambda>image_bytes.
           let parts = gemini_parts @ [PBytes image_bytes ''image/jpeg'']
           in if py_truthy caption_text then
                bind_io (pure_io (py_len caption_text)) (\<lambda>n.
                if n > MAX_TEXT_CHARS then
                  bind_io (send_telegram_message env chat_id (caption_too_long_text n))
                    (\<lambda>_. ret (Return ack_ok))
                else ret (Continue (parts @ [PRaw caption_text])))
              else ret (Continue (parts @ [PRaw (JStr default_instruction)]))))
          (\<lambda>e. bind_io (send_telegram_message env chat_id (download_error_text e))
                  (\<lambda>_. ret (Return ack_ok)))
      else ret (Continue gemini_parts))"

definition permissions :: "env \<Rightarrow> jval \<Rightarrow> string list" where
  "permissions env user_id =
     [''read(\"user:'' @ py_str env user_id @ ''\")'',
      ''write(\"user:'' @ py_str env user_id @ ''\")'']"

text \<open>Steps 1 to 3: extract, save, confirm.\<close>

definition extraction_section :: "env \<Rightarrow> jval \<Rightarrow> jval \<Rightarrow> string \<Rightarrow> part list \<Rightarrow> ack io" where
  "extraction_section env chat_id user_id current_time gemini_parts =
     bind_io (extract_expense_details env gemini_parts) (\<lambda>extracted_data.
     bind_io (pure_io (py_get extracted_data ''Category'' JNull)) (\<lambda>c.
     if c = JStr ''ERROR'' then
       bind_io (pure_io (py_get extracted_data ''Description'' (JStr ''N/A''))) (\<lambda>d.
       bind_io (send_telegram_message env chat_id (extraction_failed_text env d))
         (\<lambda>_. ret ack_ok))
     else
       bind_io (pure_io (py_getitem extracted_data ''Category'')) (\<lambda>cat.
       bind_io (pure_io (py_getitem extracted_data ''Description'')) (\<lambda>descr.
       bind_io (pure_io (bind_sum (py_getitem extracted_data ''Amount'') py_float)) (\<lambda>amt.
       let expense_data = \<lparr>exp_telegram_user_id = user_id, exp_category = cat,
                            exp_description = descr, exp_amount = amt,
                            exp_created_at = current_time\<rparr>;
           perms = permissions env user_id
       in bind_io (call (Created expense_data perms)
                     (case create_document env expense_data perms of
                        Some e \<Rightarrow> Inl e | None \<Rightarrow> Inr ())) (\<lambda>_.
          bind_io (send_telegram_message env chat_id (expense_saved_text env expense_data))
            (\<lambda>_. ret ack_ok)))))))"

text \<open>The body of the outer \<open>try\<close>; \<open>req\<close> is what \<open>await request.json()\<close> gives.\<close>

definition webhook_body :: "env \<Rightarrow> exn + jval \<Rightarrow> ack io" where
  "webhook_body env req =
     bind_io (pure_io req) (\<lambda>update.
     bind_io (pure_io (py_contains ''message'' update)) (\<lambda>has_message.
     if \<not> has_message then ret ack_ok
     else
       bind_io (pure_io (py_getitem update ''message'')) (\<lambda>message.
       bind_io (pure_io (bind_sum (py_getitem message ''chat'')
                                  (\<lambda>c. py_getitem c ''id''))) (\<lambda>chat_id.
       bind_io (pure_io (bind_sum (py_getitem message ''from'')
                                  (\<lambda>f. py_getitem f ''id''))) (\<lambda>user_id.
       let current_time = isoformat (clock_now env) @ ''Z''
       in bind_io (command_section env message chat_id user_id) (\<lambda>handled.
          case handled of
            Some a \<Rightarrow> ret a
          | None \<Rightarrow>
              bind_io (input_section env message chat_id) (\<lambda>input.
              case input of
                Return a \<Rightarrow> ret a
              | Continue (gemini_parts, file_id, caption_text) \<Rightarrow>
                  bind_io (download_section env chat_id gemini_parts file_id caption_text)
                    (\<lambda>ready.
                  case ready of
                    Return a \<Rightarrow> ret a
                  | Continue parts \<Rightarrow>
                      extraction_section env chat_id user_id current_time parts))))))))"

text \<open>The handler: the body, and the outer \<open>except\<close> that logs and answers.\<close>

definition handle_telegram_webhook :: "env \<Rightarrow> exn + jval \<Rightarrow> ack io" where
  "handle_telegram_webhook env req =
     try_except (webhook_body env req)
       (\<lambda>e. let error_msg = unexpected_error_text e
            in bind_io (call (Logged error_msg) (Inr ()))
                 (\<lambda>_. ret [(''status'', ''error''), (''message'', error_msg)]))"

subsection \<open>Reading a trace\<close>

text \<open>The kinds of events, and the identifiers an update carries.\<close>

fun is_sent :: "event \<Rightarrow> bool" where
  "is_sent (Sent _ _) = True"
| "is_sent _ = False"

fun is_download :: "event \<Rightarrow> bool" where
  "is_download (GetFile _) = True"
| "is_download (Fetch _) = True"
| "is_download _ = False"

fun is_extract :: "event \<Rightarrow> bool" where
  "is_extract (Extract _) = True"
| "is_extract _ = False"

fun is_created :: "event \<Rightarrow> bool" where
  "is_created (Created _ _) = True"
| "is_created _ = False"

fun is_listed :: "event \<Rightarrow> bool" where
  "is_listed (Listed _) = True"
| "is_listed _ = False"

fun is_logged :: "event \<Rightarrow> bool" where
  "is_logged (Logged _) = True"
| "is_logged _ = False"

text \<open>\<open>update['message']\<close>, \<open>message['chat']['id']\<close> and \<open>message['from']['id']\<close>.\<close>

definition message_of :: "jval \<Rightarrow> exn + jval" where
  "message_of update = py_getitem update ''message''"

definition chat_id_of :: "jval \<Rightarrow> exn + jval" where
  "chat_id_of message = bind_sum (py_getitem message ''chat'') (\<lambda>c. py_getitem c ''id'')"

definition user_id_of :: "jval \<Rightarrow> exn + jval" where
  "user_id_of message = bind_sum (py_getitem message ''from'') (\<lambda>f. py_getitem f ''id'')"

subsection \<open>A sample environment\<close>

text \<open>
  An outside world in which no request fails: the extraction service answers \<open>g\<close>, the
  store answers a query with \<open>docs\<close>, and a file download gives three bytes. The clock
  shows Wednesday 2026-11-04. The arithmetic is exact, which is what double arithmetic
  gives on the numbers of the examples that use this environment.
\<close>

definition sample_env :: "(part list \<Rightarrow> exn + jval) \<Rightarrow> document list \<Rightarrow> env" where
  "sample_env g docs =
     \<lparr>post_raises = (\<lambda>_ _. None),
      get_file = (\<lambda>_. Inr (JObj [(''ok'', JBool True),
                                   (''result'', JObj [(''file_path'', JStr ''photos/file_1.jpg'')])])),
      fetch = (\<lambda>_. Inr ''jpg''),
      generate_content = g,
      create_document = (\<lambda>_ _. None),
      list_documents = (\<lambda>_. Inr docs),
      clock_now = \<lparr>dt_date = Date 739924, dt_hour = 10, dt_minute = 30, dt_second = 0,
                    dt_microsecond = 0\<rparr>,
      clock_today = Date 739924,
      float_add = (\<lambda>x y. x + y),
      float_div = (\<lambda>x y. x / y),
      float_mul = (\<lambda>x y. x * y),
      repr_json = (\<lambda>_. ''#'')\<rparr>"


text \<open>An update carrying a message with the given extra fields, from user 9 in chat 7.\<close>

definition sample_update :: "(string \<times> jval) list \<Rightarrow> jval" where
  "sample_update extra =
     JObj [(''update_id'', JNum 1),
           (''message'', JObj ([(''chat'', JObj [(''id'', JNum 7)]),
                                (''from'', JObj [(''id'', JNum 9)])] @ extra))]"


section \<open>Properties\<close>

subsection \<open>The weekly window\<close>

lemma weekday_range: "0 \<le> weekday d \<and> weekday d \<le> 6"
  unfolding weekday_def by presburger

lemma monday_in_range:
  assumes "valid_date today"
  shows "MINORDINAL \<le> toordinal today - weekday today
         \<and> toordinal today - weekday today \<le> MAXORDINAL"
  using assms unfolding valid_date_def weekday_def MINORDINAL_def MAXORDINAL_def
  by presburger

lemma zero_pad_times:
  "zero_pad 2 0 = ''00''" "zero_pad 2 23 = ''23''" "zero_pad 2 59 = ''59''"
  "zero_pad 6 999999 = ''999999''"
  by (simp_all add: zero_pad_def str_nat.simps digit_char_def)

lemma isoformat_min:
  "ord2ymd (toordinal d) = (y, m, dd) \<Longrightarrow>
   isoformat (combine_min d)
     = zero_pad 4 (nat y) @ ''-'' @ zero_pad 2 (nat m) @ ''-'' @ zero_pad 2 (nat dd)
       @ ''T00:00:00''"
  by (simp add: isoformat_def combine_min_def zero_pad_times)

lemma isoformat_max:
  "ord2ymd (toordinal d) = (y, m, dd) \<Longrightarrow>
   isoformat (combine_max d)
     = zero_pad 4 (nat y) @ ''-'' @ zero_pad 2 (nat m) @ ''-'' @ zero_pad 2 (nat dd)
       @ ''T23:59:59.999999''"
  by (simp add: isoformat_def combine_max_def zero_pad_times)

text \<open>
  C7. For the weekly selector, whatever day of the week today is, the window starts on the
  Monday of the current week (the latest Monday not after today, so at most six days
  back) at 00:00:00 and ends today at 23:59:59.999999; the subtraction never leaves the
  calendar's range, the end is not before the start, and the end's date is today. The
  function returns these two instants as text: the year, month and day of the Monday
  followed by \<open>T00:00:00Z\<close>, and the year, month and day of today followed by
  \<open>T23:59:59.999999Z\<close>.
\<close>

theorem weekly_window_starts_monday:
  assumes "valid_date today"
  shows "\<exists>monday y m d y' m' d'.
           window_dates today ''/week'' = Inr (combine_min monday, combine_max today)
           \<and> dt_date (combine_min monday) = monday
           \<and> dt_date (combine_max today) = today
           \<and> weekday monday = 0
           \<and> toordinal monday \<le> toordinal today
           \<and> toordinal today - toordinal monday \<le> 6
           \<and> toordinal today - toordinal monday = weekday today
           \<and> dt_hour (combine_min monday) = 0 \<and> dt_minute (combine_min monday) = 0
           \<and> dt_second (combine_min monday) = 0 \<and> dt_microsecond (combine_min monday) = 0
           \<and> dt_hour (combine_max today) = 23 \<and> dt_minute (combine_max today) = 59
           \<and> dt_second (combine_max today) = 59
           \<and> dt_microsecond (combine_max today) = 999999
           \<and> ord2ymd (toordinal monday) = (y, m, d)
           \<and> ord2ymd (toordinal today) = (y', m', d')
           \<and> get_query_time_range today ''/week''
               = Inr (zero_pad 4 (nat y) @ ''-'' @ zero_pad 2 (nat m) @ ''-''
                        @ zero_pad 2 (nat d) @ ''T00:00:00Z'',
                      zero_pad 4 (nat y') @ ''-'' @ zero_pad 2 (nat m') @ ''-''
                        @ zero_pad 2 (nat d') @ ''T23:59:59.999999Z'')"
proof -
  let ?m = "Date (toordinal today - weekday today)"
  obtain y m d where ymd: "ord2ymd (toordinal ?m) = (y, m, d)"
    using prod_cases3 by blast
  obtain y' m' d' where ymd': "ord2ymd (toordinal today) = (y', m', d')"
    using prod_cases3 by blast
  have rng: "MINORDINAL \<le> toordinal today - weekday today
             \<and> toordinal today - weekday today \<le> MAXORDINAL"
    using monday_in_range [OF assms] .
  have sub: "date_minus_days today (weekday today) = Inr ?m"
    using rng by (simp add: date_minus_days_def Let_def)
  have wd: "window_dates today ''/week'' = Inr (combine_min ?m, combine_max today)"
    by (simp add: window_dates_def sub)
  have gq: "get_query_time_range today ''/week''
              = Inr (zero_pad 4 (nat y) @ ''-'' @ zero_pad 2 (nat m) @ ''-''
                       @ zero_pad 2 (nat d) @ ''T00:00:00Z'',
                     zero_pad 4 (nat y') @ ''-'' @ zero_pad 2 (nat m') @ ''-''
                       @ zero_pad 2 (nat d') @ ''T23:59:59.999999Z'')"
    by (simp add: get_query_time_range_def wd isoformat_min [OF ymd] isoformat_max [OF ymd'])
  have mon: "weekday ?m = 0"
    unfolding weekday_def by (simp del: One_nat_def) presburger
  have le: "toordinal ?m \<le> toordinal today" "toordinal today - toordinal ?m \<le> 6"
    using weekday_range [of today] by simp_all
  have eq: "toordinal today - toordinal ?m = weekday today"
    by simp
  have fields: "dt_date (combine_min ?m) = ?m" "dt_date (combine_max today) = today"
    "dt_hour (combine_min ?m) = 0" "dt_minute (combine_min ?m) = 0"
    "dt_second (combine_min ?m) = 0" "dt_microsecond (combine_min ?m) = 0"
    "dt_hour (combine_max today) = 23" "dt_minute (combine_max today) = 59"
    "dt_second (combine_max today) = 59" "dt_microsecond (combine_max today) = 999999"
    by (simp_all add: combine_min_def combine_max_def)
  show ?thesis
    apply (rule exI [of _ ?m])
    apply (rule exI [of _ y], rule exI [of _ m], rule exI [of _ d])
    apply (rule exI [of _ y'], rule exI [of _ m'], rule exI [of _ d'])
    apply (intro conjI)
    apply (rule wd fields mon le eq ymd ymd' gq)+
    done
qed

text \<open>
  Wednesday 2026-11-04 has ordinal 739924; the Monday before it is 2026-11-02, ordinal
  739922.
\<close>

theorem weekly_window_starts_monday_witness:
  "valid_date (Date 739924)
   \<and> window_dates (Date 739924) ''/week''
       = Inr (combine_min (Date 739922), combine_max (Date 739924))
   \<and> weekday (Date 739922) = 0
   \<and> get_query_time_range (Date 739924) ''/week''
       = Inr (''2026-11-02T00:00:00Z'', ''2026-11-04T23:59:59.999999Z'')"
proof -
  have v: "valid_date (Date 739924)"
    by (simp add: valid_date_def MINORDINAL_def MAXORDINAL_def)
  obtain monday y m d y' m' d' where
    w: "window_dates (Date 739924) ''/week''
          = Inr (combine_min monday, combine_max (Date 739924))"
      "weekday monday = 0"
      "toordinal (Date 739924) - toordinal monday = weekday (Date 739924)"
      "ord2ymd (toordinal monday) = (y, m, d)"
      "ord2ymd (toordinal (Date 739924)) = (y', m', d')"
      "get_query_time_range (Date 739924) ''/week''
         = Inr (zero_pad 4 (nat y) @ ''-'' @ zero_pad 2 (nat m) @ ''-''
                  @ zero_pad 2 (nat d) @ ''T00:00:00Z'',
                zero_pad 4 (nat y') @ ''-'' @ zero_pad 2 (nat m') @ ''-''
                  @ zero_pad 2 (nat d') @ ''T23:59:59.999999Z'')"
    using weekly_window_starts_monday [OF v] by blast
  have "weekday (Date 739924) = 2"
    by (simp add: weekday_def)
  with w(3) have "toordinal monday = 739922"
    by simp
  then have mon: "monday = Date 739922"
    by (cases monday) simp
  have "ord2ymd 739922 = (2026, 11, 2)" "ord2ymd 739924 = (2026, 11, 4)"
    by (simp_all add: ord2ymd_def Let_def DAYS_IN_MONTH_def)
  with w(4,5) mon have parts: "y = 2026" "m = 11" "d = 2" "y' = 2026" "m' = 11" "d' = 4"
    by simp_all
  have pads: "zero_pad 4 2026 = ''2026''" "zero_pad 2 11 = ''11''" "zero_pad 2 2 = ''02''"
    "zero_pad 2 4 = ''04''"
    by (simp_all add: zero_pad_def str_nat.simps digit_char_def)
  have "get_query_time_range (Date 739924) ''/week''
          = Inr (''2026-11-02T00:00:00Z'', ''2026-11-04T23:59:59.999999Z'')"
    using w(6) by (simp add: parts pads)
  with v w(1,2) mon show ?thesis
    by simp
qed

subsection \<open>The report's aggregation\<close>

lemmas io_defs = bind_io_def ret_def pure_io_def call_def try_except_def




lemma dict_set_sum:
  "sum_list (map snd (dict_set d k v)) = sum_list (map snd d) - dict_get_or d k 0 + v"
  by (induction d k v rule: dict_set.induct) (auto simp: dict_get_or_def)

lemma dict_set_nonneg:
  "\<forall>v \<in> set (map snd d). 0 \<le> v \<Longrightarrow> 0 \<le> v' \<Longrightarrow>
   \<forall>v \<in> set (map snd (dict_set d k v')). 0 \<le> v"
  by (induction d k v' rule: dict_set.induct) auto

lemma dict_get_nonneg:
  "\<forall>v \<in> set (map snd d). 0 \<le> v \<Longrightarrow> 0 \<le> dict_get_or d k 0"
  by (induction d) (auto simp: dict_get_or_def)

lemma dict_sum_nonneg:
  "\<forall>v \<in> set (map snd d). (0 :: real) \<le> v \<Longrightarrow> 0 \<le> sum_list (map snd d)"
  by (induction d) auto

lemma dict_get_le_sum:
  "\<forall>v \<in> set (map snd d). 0 \<le> v \<Longrightarrow> dict_get_or d k 0 \<le> sum_list (map snd d)"
proof (induction d)
  case Nil
  then show ?case by (simp add: dict_get_or_def)
next
  case (Cons p d)
  then have ih: "dict_get_or d k 0 \<le> sum_list (map snd d)" and p: "0 \<le> snd p"
    and s: "0 \<le> sum_list (map snd d)"
    using dict_sum_nonneg [of d] by auto
  show ?case
  proof (cases "fst p = k")
    case True
    with s show ?thesis
      by (cases p) (simp add: dict_get_or_def)
  next
    case False
    then have "dict_get_or (p # d) k 0 = dict_get_or d k 0"
      by (cases p) (simp add: dict_get_or_def)
    with ih p show ?thesis
      by simp
  qed
qed

lemma add_bounds:
  assumes "double_arith env u eta" "0 \<le> x" "0 \<le> y"
  shows "(1 - u) * (x + y) \<le> float_add env x y"
    and "float_add env x y \<le> (1 + u) * (x + y)"
    and "0 \<le> float_add env x y"
proof -
  show lo: "(1 - u) * (x + y) \<le> float_add env x y"
    and "float_add env x y \<le> (1 + u) * (x + y)"
    using assms unfolding double_arith_def by blast+
  have "0 \<le> (1 - u) * (x + y)"
    using assms unfolding double_arith_def by simp
  with lo show "0 \<le> float_add env x y"
    by simp
qed



lemma sum_amounts_nonneg:
  "\<forall>d \<in> set xs. 0 \<le> doc_amount d \<Longrightarrow> 0 \<le> sum_list (map doc_amount xs)"
  by (induction xs) auto

lemma sum_amounts_pos:
  assumes "\<forall>d \<in> set xs. 0 \<le> doc_amount d" "\<exists>d \<in> set xs. 0 < doc_amount d"
  shows "0 < sum_list (map doc_amount xs)"
  using assms
proof (induction xs)
  case Nil
  then show ?case by simp
next
  case (Cons x xs)
  show ?case
  proof (cases "0 < doc_amount x")
    case True
    with sum_amounts_nonneg [of xs] Cons.prems(1) show ?thesis
      by (simp add: add_pos_nonneg)
  next
    case False
    with Cons.prems have "\<exists>d \<in> set xs. 0 < doc_amount d" by auto
    with Cons.IH Cons.prems(1) have "0 < sum_list (map doc_amount xs)" by simp
    with Cons.prems(1) show ?thesis by (simp add: add_nonneg_pos)
  qed
qed

text \<open>
  The relative error of a float sum: after \<open>n\<close> additions of amounts that are not
  negative, the running total lies between the exact sum times \<open>(1 - u)\<^sup>n\<close> and the exact
  sum times \<open>(1 + u)\<^sup>n\<close>.
\<close>

lemma step_bounds:
  assumes u: "0 \<le> u" "u < 1" and s: "0 \<le> (s :: real)"
      and lo: "(1 - u) * b \<le> t1" and hi: "t1 \<le> (1 + u) * b"
      and rl: "(1 - u) ^ k * (t1 + s) \<le> r" and rh: "r \<le> (1 + u) ^ k * (t1 + s)"
  shows "(1 - u) ^ Suc k * (b + s) \<le> r" and "r \<le> (1 + u) ^ Suc k * (b + s)"
proof -
  have us: "0 \<le> u * s"
    using u(1) s by simp
  have l1: "(1 - u) * (b + s) \<le> t1 + s"
    using lo us by (simp add: algebra_simps)
  have "(1 - u) ^ Suc k * (b + s) = (1 - u) ^ k * ((1 - u) * (b + s))"
    by simp
  also have "\<dots> \<le> (1 - u) ^ k * (t1 + s)"
    using l1 u by (intro mult_left_mono) simp_all
  also note rl
  finally show "(1 - u) ^ Suc k * (b + s) \<le> r" .
  have h1: "t1 + s \<le> (1 + u) * (b + s)"
    using hi us by (simp add: algebra_simps)
  note rh
  also have "(1 + u) ^ k * (t1 + s) \<le> (1 + u) ^ k * ((1 + u) * (b + s))"
    using h1 u by (intro mult_left_mono) simp_all
  also have "\<dots> = (1 + u) ^ Suc k * (b + s)"
    by simp
  finally show "r \<le> (1 + u) ^ Suc k * (b + s)" .
qed

lemma accumulate_total_bounds:
  assumes da: "double_arith env u eta"
  shows "\<forall>x \<in> set xs. 0 \<le> doc_amount x \<Longrightarrow> 0 \<le> t \<Longrightarrow>
         (1 - u) ^ length xs * (t + sum_list (map doc_amount xs))
           \<le> fst (accumulate env xs (t, d))
         \<and> fst (accumulate env xs (t, d))
           \<le> (1 + u) ^ length xs * (t + sum_list (map doc_amount xs))"
proof (induction xs arbitrary: t d)
  case Nil
  then show ?case by simp
next
  case (Cons x xs)
  let ?a = "doc_amount x"
  let ?t1 = "float_add env t ?a"
  let ?d1 = "dict_set d (doc_category x) (float_add env (dict_get_or d (doc_category x) 0) ?a)"
  let ?S = "sum_list (map doc_amount xs)"
  let ?r = "fst (accumulate env xs (?t1, ?d1))"
  have u: "0 \<le> u" "u < 1"
    using da unfolding double_arith_def by simp_all
  have a: "0 \<le> ?a" and S: "0 \<le> ?S"
    using Cons.prems(1) sum_amounts_nonneg [of xs] by simp_all
  note b = add_bounds [OF da Cons.prems(2) a]
  from Cons.IH [of ?t1 ?d1] Cons.prems(1) b(3)
  have ih: "(1 - u) ^ length xs * (?t1 + ?S) \<le> ?r" "?r \<le> (1 + u) ^ length xs * (?t1 + ?S)"
    by simp_all
  from step_bounds [OF u S b(1) b(2) ih]
  show ?case
    by (simp add: add.assoc)
qed

lemma accumulate_dict_bounds:
  assumes da: "double_arith env u eta"
  shows "\<forall>x \<in> set xs. 0 \<le> doc_amount x \<Longrightarrow> \<forall>v \<in> set (map snd d). 0 \<le> v \<Longrightarrow>
         (1 - u) ^ length xs * (sum_list (map snd d) + sum_list (map doc_amount xs))
           \<le> sum_list (map snd (snd (accumulate env xs (t, d))))
         \<and> sum_list (map snd (snd (accumulate env xs (t, d))))
           \<le> (1 + u) ^ length xs * (sum_list (map snd d) + sum_list (map doc_amount xs))
         \<and> (\<forall>v \<in> set (map snd (snd (accumulate env xs (t, d)))). 0 \<le> v)"
proof (induction xs arbitrary: t d)
  case Nil
  then show ?case by simp
next
  case (Cons x xs)
  let ?a = "doc_amount x"
  let ?c = "doc_category x"
  let ?g = "dict_get_or d ?c 0"
  let ?v = "float_add env ?g ?a"
  let ?t1 = "float_add env t ?a"
  let ?d1 = "dict_set d ?c ?v"
  let ?D = "sum_list (map snd d)"
  let ?S = "sum_list (map doc_amount xs)"
  let ?r = "sum_list (map snd (snd (accumulate env xs (?t1, ?d1))))"
  have u: "0 \<le> u" "u < 1"
    using da unfolding double_arith_def by simp_all
  have a: "0 \<le> ?a" and S: "0 \<le> ?S"
    using Cons.prems(1) sum_amounts_nonneg [of xs] by simp_all
  have g: "0 \<le> ?g" "?g \<le> ?D"
    using Cons.prems(2) dict_get_nonneg dict_get_le_sum by blast+
  note b = add_bounds [OF da g(1) a]
  have d1: "\<forall>v \<in> set (map snd ?d1). 0 \<le> v"
    using Cons.prems(2) b(3) by (rule dict_set_nonneg)
  have D1: "sum_list (map snd ?d1) = ?D - ?g + ?v"
    by (rule dict_set_sum)
  have ug: "u * ?g \<le> u * ?D"
    using u(1) g(2) by (rule mult_left_mono [rotated])
  have lo: "(1 - u) * (?D + ?a) \<le> sum_list (map snd ?d1)"
    using b(1) ug unfolding D1 by (simp add: algebra_simps)
  have hi: "sum_list (map snd ?d1) \<le> (1 + u) * (?D + ?a)"
    using b(2) ug unfolding D1 by (simp add: algebra_simps)
  from Cons.IH [of ?d1 ?t1] Cons.prems(1) d1
  have ih: "(1 - u) ^ length xs * (sum_list (map snd ?d1) + ?S) \<le> ?r"
           "?r \<le> (1 + u) ^ length xs * (sum_list (map snd ?d1) + ?S)"
           "\<forall>v \<in> set (map snd (snd (accumulate env xs (?t1, ?d1)))). 0 \<le> v"
    by simp_all
  from step_bounds [OF u S lo hi ih(1,2)] ih(3)
  show ?case
    by (simp add: add.assoc)
qed




lemma breakdown_ok:
  "t \<noteq> 0 \<Longrightarrow>
   breakdown env t items
     = Inr (map (\<lambda>(c, s). (c, s, float_mul env (float_div env s t) 100)) items)"
  by (induction env t items rule: breakdown.induct) auto








lemma aggregate_parts:
  assumes da: "double_arith env u eta"
      and nn: "\<forall>x \<in> set xs. 0 \<le> doc_amount x" and ps: "\<exists>x \<in> set xs. 0 < doc_amount x"
  shows "(1 - u) ^ length xs * sum_list (map doc_amount xs) \<le> fst (accumulate env xs (0, []))"
    and "fst (accumulate env xs (0, [])) \<le> (1 + u) ^ length xs * sum_list (map doc_amount xs)"
    and "(1 - u) ^ length xs * sum_list (map doc_amount xs)
           \<le> sum_list (map snd (snd (accumulate env xs (0, []))))"
    and "sum_list (map snd (snd (accumulate env xs (0, []))))
           \<le> (1 + u) ^ length xs * sum_list (map doc_amount xs)"
    and "\<forall>v \<in> set (map snd (snd (accumulate env xs (0, [])))). 0 \<le> v"
    and "0 < (1 - u) ^ length xs * sum_list (map doc_amount xs)"
    and "0 < fst (accumulate env xs (0, []))"
    and "aggregate env xs
           = Inr (fst (accumulate env xs (0, [])),
                  map (\<lambda>(c, s). (c, s, float_mul env
                                          (float_div env s (fst (accumulate env xs (0, [])))) 100))
                    (sorted_items (snd (accumulate env xs (0, [])))))"
proof -
  have u: "0 \<le> u" "u < 1"
    using da unfolding double_arith_def by simp_all
  from accumulate_total_bounds [OF da nn, of 0 "[]"]
  show t1: "(1 - u) ^ length xs * sum_list (map doc_amount xs) \<le> fst (accumulate env xs (0, []))"
    and "fst (accumulate env xs (0, [])) \<le> (1 + u) ^ length xs * sum_list (map doc_amount xs)"
    by simp_all
  from accumulate_dict_bounds [OF da nn, of "[]" 0]
  show "(1 - u) ^ length xs * sum_list (map doc_amount xs)
           \<le> sum_list (map snd (snd (accumulate env xs (0, []))))"
    and "sum_list (map snd (snd (accumulate env xs (0, []))))
           \<le> (1 + u) ^ length xs * sum_list (map doc_amount xs)"
    and "\<forall>v \<in> set (map snd (snd (accumulate env xs (0, [])))). 0 \<le> v"
    by simp_all
  have "0 < sum_list (map doc_amount xs)"
    using nn ps by (rule sum_amounts_pos)
  then show p: "0 < (1 - u) ^ length xs * sum_list (map doc_amount xs)"
    using u by simp
  with t1 show t: "0 < fst (accumulate env xs (0, []))"
    by simp
  obtain t' d' where acc: "accumulate env xs (0, []) = (t', d')"
    by force
  with t have "t' \<noteq> 0"
    by simp
  with acc show "aggregate env xs
           = Inr (fst (accumulate env xs (0, [])),
                  map (\<lambda>(c, s). (c, s, float_mul env
                                          (float_div env s (fst (accumulate env xs (0, [])))) 100))
                    (sorted_items (snd (accumulate env xs (0, [])))))"
    by (simp add: aggregate_def breakdown_ok)
qed



text \<open>
  C4, as stated, fails: one stored expense of amount 0 is a non-empty list whose grand
  total is 0, and the percentage division raises.
\<close>

theorem zero_total_counterexample:
  "[\<lparr>doc_amount = 0, doc_category = ''Food''\<rparr>] \<noteq> []
   \<and> fst (accumulate (sample_env (\<lambda>_. Inr JNull) [])
             [\<lparr>doc_amount = 0, doc_category = ''Food''\<rparr>] (0, [])) = 0
   \<and> aggregate (sample_env (\<lambda>_. Inr JNull) []) [\<lparr>doc_amount = 0, doc_category = ''Food''\<rparr>]
       = Inl (ZeroDivisionError ''float division by zero'')"
  by (simp add: aggregate_def sorted_items_def dict_get_or_def sample_env_def)

text \<open>
  C4, amended. For every non-empty list of expense records whose amounts are not negative
  and not all zero, the grand total is strictly positive and the aggregation succeeds (no
  division by zero); this holds for any float arithmetic within the error bounds of
  doubles. When the store returns no document, the report sends the no-expenses message
  after the query and nothing else: the aggregation is not part of that path.
\<close>

theorem positive_total_division_defined:
  "(double_arith env u eta \<and> expenses \<noteq> [] \<and> (\<forall>d \<in> set expenses. 0 \<le> doc_amount d)
      \<and> (\<exists>d \<in> set expenses. 0 < doc_amount d)
      \<longrightarrow> 0 < fst (accumulate env expenses (0, []))
          \<and> (\<exists>ls. aggregate env expenses = Inr (fst (accumulate env expenses (0, [])), ls)))
   \<and> (get_query_time_range (clock_today env) command = Inr (s, e)
        \<and> list_documents env (report_queries user_id s e) = Inr []
        \<and> post_raises env chat_id (no_expenses_text (capitalize (drop 1 command))) = None
      \<longrightarrow> generate_report env chat_id user_id command tr
            = (Inr ack_ok, tr @ [Listed (report_queries user_id s e),
                                 Sent chat_id (no_expenses_text (capitalize (drop 1 command)))]))"
proof (intro conjI impI)
  assume a: "double_arith env u eta \<and> expenses \<noteq> []
             \<and> (\<forall>d \<in> set expenses. 0 \<le> doc_amount d)
             \<and> (\<exists>d \<in> set expenses. 0 < doc_amount d)"
  then have da: "double_arith env u eta"
    and nn: "\<forall>d \<in> set expenses. 0 \<le> doc_amount d"
    and ps: "\<exists>d \<in> set expenses. 0 < doc_amount d"
    by blast+
  show "0 < fst (accumulate env expenses (0, []))"
    by (rule aggregate_parts(7) [OF da nn ps])
  show "\<exists>ls. aggregate env expenses = Inr (fst (accumulate env expenses (0, [])), ls)"
    using aggregate_parts(8) [OF da nn ps] by blast
next
  assume "get_query_time_range (clock_today env) command = Inr (s, e)
        \<and> list_documents env (report_queries user_id s e) = Inr []
        \<and> post_raises env chat_id (no_expenses_text (capitalize (drop 1 command))) = None"
  then show "generate_report env chat_id user_id command tr
            = (Inr ack_ok, tr @ [Listed (report_queries user_id s e),
                                 Sent chat_id (no_expenses_text (capitalize (drop 1 command)))])"
    by (simp add: generate_report_def send_telegram_message_def io_defs Let_def)
qed

lemma sample_arith: "double_arith (sample_env g docs) 0 0"
  by (simp add: double_arith_def sample_env_def)

theorem positive_total_division_defined_witness:
  "0 < fst (accumulate (sample_env (\<lambda>_. Inr JNull) [])
              [\<lparr>doc_amount = 3, doc_category = ''Food''\<rparr>,
               \<lparr>doc_amount = 0, doc_category = ''Travel''\<rparr>] (0, []))
   \<and> generate_report (sample_env (\<lambda>_. Inr JNull) []) (JNum 7) (JNum 9) ''/daily'' []
       = (Inr ack_ok,
          [Listed (report_queries (JNum 9)
                     (isoformat (combine_min (Date 739924)) @ ''Z'')
                     (isoformat (combine_max (Date 739924)) @ ''Z'')),
           Sent (JNum 7) (no_expenses_text (capitalize (drop 1 ''/daily'')))])"
proof -
  let ?xs = "[\<lparr>doc_amount = 3, doc_category = ''Food''\<rparr>,
              \<lparr>doc_amount = 0, doc_category = ''Travel''\<rparr>]"
  let ?env = "sample_env (\<lambda>_. Inr JNull) []"
  let ?s = "isoformat (combine_min (Date 739924)) @ ''Z''"
  let ?e = "isoformat (combine_max (Date 739924)) @ ''Z''"
  have h1: "double_arith ?env 0 0 \<and> ?xs \<noteq> [] \<and> (\<forall>d \<in> set ?xs. 0 \<le> doc_amount d)
            \<and> (\<exists>d \<in> set ?xs. 0 < doc_amount d)"
    using sample_arith by simp
  have h2: "get_query_time_range (clock_today ?env) ''/daily'' = Inr (?s, ?e)
            \<and> list_documents ?env (report_queries (JNum 9) ?s ?e) = Inr []
            \<and> post_raises ?env (JNum 7) (no_expenses_text (capitalize (drop 1 ''/daily'')))
                = None"
    by (simp add: sample_env_def get_query_time_range_def window_dates_def)
  note t = positive_total_division_defined
             [of ?env 0 0 ?xs "''/daily''" ?s ?e "JNum 9" "JNum 7" "[]"]
  from t h1 have a: "0 < fst (accumulate ?env ?xs (0, []))"
    by blast
  from t h2 have b: "generate_report ?env (JNum 7) (JNum 9) ''/daily'' []
      = (Inr ack_ok, [] @ [Listed (report_queries (JNum 9) ?s ?e),
           Sent (JNum 7) (no_expenses_text (capitalize (drop 1 ''/daily'')))])"
    by blast
  from a b show ?thesis
    by (simp only: append_Nil simp_thms)
qed





subsection \<open>What each part of the handler can do\<close>

lemma generate_report_events:
  assumes "generate_report env chat_id user_id command tr = (r, tr')"
  shows "(\<exists>evs. tr' = tr @ evs \<and> (\<forall>ev \<in> set evs. is_sent ev \<or> is_listed ev))
         \<and> (\<forall>a. r = Inr a \<longrightarrow> a = ack_ok)"
  using assms
  by (auto simp: generate_report_def send_telegram_message_def io_defs Let_def
           split: sum.splits if_splits option.splits prod.splits)

lemma command_section_cases:
  assumes "command_section env message chat_id user_id tr = (r, tr')"
  shows "(r = Inr None \<and> tr' = tr)
         \<or> ((\<exists>evs. tr' = tr @ evs \<and> (\<forall>ev \<in> set evs. is_sent ev \<or> is_listed ev))
            \<and> (\<forall>h. r = Inr h \<longrightarrow> h = Some ack_ok))"
proof -
  have rep: "\<And>c tr r tr'. generate_report env chat_id user_id c tr = (r, tr') \<Longrightarrow>
            (\<exists>evs. tr' = tr @ evs \<and> (\<forall>ev \<in> set evs. is_sent ev \<or> is_listed ev))
            \<and> (\<forall>a. r = Inr a \<longrightarrow> a = ack_ok)"
    by (rule generate_report_events)
  show ?thesis
    using assms
    apply (simp add: command_section_def send_telegram_message_def io_defs
             split: sum.splits if_splits option.splits prod.splits)
    apply (auto dest!: rep)
    done
qed

lemma attachment_cases:
  assumes "attachment env message chat_id data tr = (r, tr')"
  shows "(\<exists>file_id caption_text. r = Inr (Continue ([], file_id, caption_text)) \<and> tr' = tr
            \<and> py_getitem data ''file_id'' = Inr file_id)
         \<or> ((\<exists>evs. tr' = tr @ evs \<and> (\<forall>ev \<in> set evs. is_sent ev))
            \<and> (\<forall>x. r = Inr x \<longrightarrow> x = Return ack_ok))"
  using assms
  by (auto simp: attachment_def send_telegram_message_def io_defs
           split: sum.splits if_splits option.splits prod.splits)

lemma input_section_cases:
  assumes "input_section env message chat_id tr = (r, tr')"
  shows "(\<exists>x. r = Inr (Continue x) \<and> tr' = tr)
         \<or> ((\<exists>evs. tr' = tr @ evs \<and> (\<forall>ev \<in> set evs. is_sent ev))
            \<and> (\<forall>x. r = Inr x \<longrightarrow> x = Return ack_ok))"
proof -
  have att: "\<And>d tr r tr'. attachment env message chat_id d tr = (r, tr') \<Longrightarrow>
         (\<exists>x. r = Inr (Continue x) \<and> tr' = tr)
         \<or> ((\<exists>evs. tr' = tr @ evs \<and> (\<forall>ev \<in> set evs. is_sent ev))
            \<and> (\<forall>x. r = Inr x \<longrightarrow> x = Return ack_ok))"
    using attachment_cases by blast
  show ?thesis
    using assms
    apply (simp add: input_section_def send_telegram_message_def io_defs
             split: sum.splits if_splits option.splits prod.splits)
    apply (auto dest!: att)
    done
qed

lemma download_file_events:
  assumes "download_telegram_file env file_id tr = (r, tr')"
  shows "\<exists>evs. tr' = tr @ evs \<and> (\<forall>ev \<in> set evs. is_download ev)"
  using assms
  by (auto simp: download_telegram_file_def io_defs split: sum.splits)

lemma download_section_cases:
  assumes "download_section env chat_id gemini_parts file_id caption_text tr = (r, tr')"
  shows "(\<exists>parts evs. r = Inr (Continue parts) \<and> tr' = tr @ evs
            \<and> (\<forall>ev \<in> set evs. is_download ev))
         \<or> ((\<exists>evs. tr' = tr @ evs \<and> (\<forall>ev \<in> set evs. is_download ev \<or> is_sent ev))
            \<and> (\<forall>x. r = Inr x \<longrightarrow> x = Return ack_ok))"
proof -
  have dl: "\<And>tr r tr'. download_telegram_file env file_id tr = (r, tr') \<Longrightarrow>
             \<exists>evs. tr' = tr @ evs \<and> (\<forall>ev \<in> set evs. is_download ev)"
    by (rule download_file_events)
  show ?thesis
    using assms
    apply (simp add: download_section_def send_telegram_message_def io_defs Let_def
             split: sum.splits if_splits option.splits prod.splits)
    apply (auto dest!: dl)
    done
qed

lemma extraction_section_events:
  assumes "extraction_section env chat_id user_id current_time parts tr = (r, tr')"
  shows "(\<exists>evs. tr' = tr @ Extract parts # evs \<and> (\<forall>ev \<in> set evs. is_sent ev \<or> is_created ev))
         \<and> (\<forall>a. r = Inr a \<longrightarrow> a = ack_ok)"
  using assms
  by (auto simp: extraction_section_def extract_expense_details_def send_telegram_message_def
                 io_defs Let_def
           split: sum.splits if_splits option.splits prod.splits)

lemma webhook_body_cases:
  assumes "webhook_body env req tr = (r, tr')"
  shows "((\<exists>evs. tr' = tr @ evs
             \<and> (\<forall>ev \<in> set evs. is_sent ev \<or> is_listed ev \<or> is_download ev))
          \<and> (\<forall>a. r = Inr a \<longrightarrow> a = ack_ok))
         \<or> (\<exists>update message chat_id user_id parts pre.
               req = Inr update \<and> message_of update = Inr message
               \<and> chat_id_of message = Inr chat_id \<and> user_id_of message = Inr user_id
               \<and> (\<forall>ev \<in> set pre. is_download ev)
               \<and> extraction_section env chat_id user_id (isoformat (clock_now env) @ ''Z'')
                    parts (tr @ pre) = (r, tr'))"
proof (cases req)
  case (Inl e)
  with assms show ?thesis
    by (auto simp: webhook_body_def io_defs)
next
  case (Inr update)
  note req = Inr
  show ?thesis
  proof (cases "py_contains ''message'' update = Inr True
                \<and> (\<exists>m c u. message_of update = Inr m \<and> chat_id_of m = Inr c
                              \<and> user_id_of m = Inr u)")
    case False
    with assms req show ?thesis
      by (auto simp: webhook_body_def io_defs message_of_def chat_id_of_def user_id_of_def
               split: sum.splits if_splits)
  next
    case True
    then obtain message chat_id user_id where
      m: "py_contains ''message'' update = Inr True" "message_of update = Inr message"
         "chat_id_of message = Inr chat_id" "user_id_of message = Inr user_id"
      by blast
    let ?ct = "isoformat (clock_now env) @ ''Z''"
    obtain rc trc where c: "command_section env message chat_id user_id tr = (rc, trc)"
      by force
    have body: "webhook_body env req tr =
      (case rc of
         Inl e \<Rightarrow> (Inl e, trc)
       | Inr (Some a) \<Rightarrow> (Inr a, trc)
       | Inr None \<Rightarrow>
           bind_io (input_section env message chat_id) (\<lambda>input.
              case input of
                Return a \<Rightarrow> ret a
              | Continue (gemini_parts, file_id, caption_text) \<Rightarrow>
                  bind_io (download_section env chat_id gemini_parts file_id caption_text)
                    (\<lambda>ready.
                  case ready of
                    Return a \<Rightarrow> ret a
                  | Continue parts \<Rightarrow>
                      extraction_section env chat_id user_id ?ct parts)) trc)"
      using m c req
      by (simp add: webhook_body_def io_defs message_of_def chat_id_of_def user_id_of_def
               split: sum.splits option.splits)
    from command_section_cases [OF c]
    show ?thesis
    proof
      assume "(\<exists>evs. trc = tr @ evs \<and> (\<forall>ev \<in> set evs. is_sent ev \<or> is_listed ev))
              \<and> (\<forall>h. rc = Inr h \<longrightarrow> h = Some ack_ok)"
      with assms body show ?thesis
        by (auto split: sum.splits option.splits)
    next
      assume none: "rc = Inr None \<and> trc = tr"
      obtain ri tri where i: "input_section env message chat_id tr = (ri, tri)"
        by force
      from input_section_cases [OF i]
      show ?thesis
      proof
        assume "(\<exists>evs. tri = tr @ evs \<and> (\<forall>ev \<in> set evs. is_sent ev))
                \<and> (\<forall>x. ri = Inr x \<longrightarrow> x = Return ack_ok)"
        with assms body none i show ?thesis
          by (auto simp: io_defs split: sum.splits flow.splits)
      next
        assume "\<exists>x. ri = Inr (Continue x) \<and> tri = tr"
        then obtain gp fid cap where x: "ri = Inr (Continue (gp, fid, cap))" "tri = tr"
          by (metis prod_cases3)
        obtain rd trd where d: "download_section env chat_id gp fid cap tr = (rd, trd)"
          by force
        have body2: "webhook_body env req tr =
          (case rd of
             Inl e \<Rightarrow> (Inl e, trd)
           | Inr (Return a) \<Rightarrow> (Inr a, trd)
           | Inr (Continue parts) \<Rightarrow> extraction_section env chat_id user_id ?ct parts trd)"
          using body none i x d
          by (simp add: io_defs split: sum.splits flow.splits)
        from download_section_cases [OF d]
        show ?thesis
        proof
          assume "(\<exists>evs. trd = tr @ evs \<and> (\<forall>ev \<in> set evs. is_download ev \<or> is_sent ev))
                  \<and> (\<forall>x. rd = Inr x \<longrightarrow> x = Return ack_ok)"
          with assms body2 show ?thesis
            by (auto split: sum.splits flow.splits)
        next
          assume "\<exists>parts evs. rd = Inr (Continue parts) \<and> trd = tr @ evs
                    \<and> (\<forall>ev \<in> set evs. is_download ev)"
          then obtain parts pre where
            p: "rd = Inr (Continue parts)" "trd = tr @ pre" "\<forall>ev \<in> set pre. is_download ev"
            by blast
          with assms body2 have
            "extraction_section env chat_id user_id ?ct parts (tr @ pre) = (r, tr')"
            by simp
          with req m p(3) show ?thesis
            by blast
        qed
      qed
    qed
  qed
qed

lemma webhook_body_ack:
  assumes "webhook_body env req tr = (Inr a, tr')"
  shows "a = ack_ok"
  using webhook_body_cases [OF assms] extraction_section_events by blast

lemma handle_unfold:
  "handle_telegram_webhook env req tr =
     (case webhook_body env req tr of
        (Inl e, tr1) \<Rightarrow>
          (Inr [(''status'', ''error''), (''message'', unexpected_error_text e)],
           tr1 @ [Logged (unexpected_error_text e)])
      | (Inr b, tr1) \<Rightarrow> (Inr b, tr1))"
  by (simp add: handle_telegram_webhook_def io_defs Let_def split: prod.splits sum.splits)

subsection \<open>The acknowledgment\<close>

text \<open>
  C1. For every inbound update (and also when reading the request body fails), with any
  behaviour of the external services, the handler returns a body with a \<open>status\<close> key and
  never raises: when the body of its \<open>try\<close> finishes, the body is \<open>{"status": "ok"}\<close>;
  when an exception escapes from any stage, it is caught, logged, and the body is
  \<open>{"status": "error", "message": ...}\<close>; on that path the log line is the only thing
  added to the trace, so no chat message is sent after the fault.
\<close>

theorem webhook_always_acknowledges:
  "\<exists>a tr'. handle_telegram_webhook env req tr = (Inr a, tr')
      \<and> (map_of a ''status'' = Some ''ok'' \<or> map_of a ''status'' = Some ''error'')
      \<and> (case webhook_body env req tr of
            (Inl e, tr1) \<Rightarrow>
              a = [(''status'', ''error''), (''message'', unexpected_error_text e)]
              \<and> tr' = tr1 @ [Logged (unexpected_error_text e)]
          | (Inr b, tr1) \<Rightarrow> a = ack_ok \<and> tr' = tr1)"
proof -
  obtain rb tr1 where b: "webhook_body env req tr = (rb, tr1)"
    by force
  show ?thesis
  proof (cases rb)
    case (Inl e)
    with b show ?thesis
      by (simp add: handle_unfold)
  next
    case (Inr a)
    with b have "a = ack_ok"
      using webhook_body_ack by blast
    with b Inr show ?thesis
      by (simp add: handle_unfold ack_ok_def)
  qed
qed

text \<open>An update whose \<open>message\<close> is \<open>null\<close>: the subscript raises TypeError, which is caught.\<close>

theorem webhook_always_acknowledges_witness:
  "handle_telegram_webhook (sample_env (\<lambda>_. Inr JNull) []) (Inr (JObj [(''message'', JNull)])) []
     = (Inr [(''status'', ''error''),
             (''message'', unexpected_error_text (TypeError ''object is not subscriptable''))],
        [Logged (unexpected_error_text (TypeError ''object is not subscriptable''))])"
proof -
  let ?env = "sample_env (\<lambda>_. Inr JNull) []"
  let ?req = "Inr (JObj [(''message'', JNull)]) :: exn + jval"
  have body: "webhook_body ?env ?req []
                = (Inl (TypeError ''object is not subscriptable''), [])"
    by (simp add: webhook_body_def io_defs py_contains_def py_getitem_def bind_sum_def)
  have "\<exists>a tr'. handle_telegram_webhook ?env ?req [] = (Inr a, tr')
          \<and> a = [(''status'', ''error''),
                   (''message'', unexpected_error_text (TypeError ''object is not subscriptable''))]
          \<and> tr' = [Logged (unexpected_error_text (TypeError ''object is not subscriptable''))]"
    using webhook_always_acknowledges [of ?env ?req "[]"] by (simp add: body)
  then show ?thesis
    by auto
qed

subsection \<open>After the extraction\<close>

lemma download_kind:
  "is_download ev \<Longrightarrow> \<not> is_created ev \<and> \<not> is_sent ev \<and> \<not> is_extract ev"
  by (cases ev) auto

lemma reaches_extraction:
  assumes "handle_telegram_webhook env req [] = (r, evs)" "Extract parts \<in> set evs"
  shows "\<exists>update message chat_id user_id pre rb trb.
           req = Inr update \<and> message_of update = Inr message
           \<and> chat_id_of message = Inr chat_id \<and> user_id_of message = Inr user_id
           \<and> (\<forall>ev \<in> set pre. is_download ev)
           \<and> extraction_section env chat_id user_id (isoformat (clock_now env) @ ''Z'')
                parts pre = (rb, trb)
           \<and> webhook_body env req [] = (rb, trb)"
proof -
  obtain rb trb where b: "webhook_body env req [] = (rb, trb)"
    by force
  have sub: "set evs \<subseteq> set trb \<union> {ev. is_logged ev}"
    using assms(1) b by (auto simp: handle_unfold split: sum.splits)
  with assms(2) have inb: "Extract parts \<in> set trb"
    by auto
  from webhook_body_cases [OF b]
  show ?thesis
  proof
    assume "(\<exists>evs. trb = [] @ evs
               \<and> (\<forall>ev \<in> set evs. is_sent ev \<or> is_listed ev \<or> is_download ev))
            \<and> (\<forall>a. rb = Inr a \<longrightarrow> a = ack_ok)"
    with inb show ?thesis
      by auto
  next
    assume "\<exists>update message chat_id user_id parts pre.
               req = Inr update \<and> message_of update = Inr message
               \<and> chat_id_of message = Inr chat_id \<and> user_id_of message = Inr user_id
               \<and> (\<forall>ev \<in> set pre. is_download ev)
               \<and> extraction_section env chat_id user_id (isoformat (clock_now env) @ ''Z'')
                    parts ([] @ pre) = (rb, trb)"
    then obtain update message chat_id user_id parts0 pre where
      x: "req = Inr update" "message_of update = Inr message"
         "chat_id_of message = Inr chat_id" "user_id_of message = Inr user_id"
         "\<forall>ev \<in> set pre. is_download ev"
         "extraction_section env chat_id user_id (isoformat (clock_now env) @ ''Z'')
            parts0 pre = (rb, trb)"
      by auto
    from extraction_section_events [OF x(6)] obtain evs' where
      e: "trb = pre @ Extract parts0 # evs'" "\<forall>ev \<in> set evs'. is_sent ev \<or> is_created ev"
      by blast
    from inb e x(5) have "parts = parts0"
      by auto
    with x b show ?thesis
      by blast
  qed
qed

lemma extraction_error_path:
  assumes "generate_content env parts = Inr (JObj d)"
          "map_of d ''Category'' = Some (JStr ''ERROR'')"
  shows "extraction_section env chat_id user_id current_time parts tr
           = ((case post_raises env chat_id
                     (extraction_failed_text env
                        (case map_of d ''Description'' of None \<Rightarrow> JStr ''N/A'' | Some v \<Rightarrow> v)) of
                 Some e \<Rightarrow> Inl e | None \<Rightarrow> Inr ack_ok),
              tr @ [Extract parts,
                    Sent chat_id
                      (extraction_failed_text env
                         (case map_of d ''Description'' of None \<Rightarrow> JStr ''N/A'' | Some v \<Rightarrow> v))])"
  using assms
  by (simp add: extraction_section_def extract_expense_details_def send_telegram_message_def
        io_defs py_get_def split: option.splits)

text \<open>
  C5. Whenever the extraction call of a delivery returns an object whose \<open>Category\<close> is
  \<open>"ERROR"\<close>, no document is created in that delivery and exactly one chat message is
  sent, to the chat of the message: the text \<open>*Extraction Failed!*\<close>, the pictograph, a
  line break and \<open>_Details_: \<close> followed by the object's \<open>Description\<close> (the string
  itself when it is a string, \<open>N/A\<close> when the object has none).
\<close>

theorem error_sentinel_not_persisted:
  assumes "handle_telegram_webhook env req [] = (r, evs)"
      and "Extract parts \<in> set evs"
      and "generate_content env parts = Inr (JObj d)"
      and "map_of d ''Category'' = Some (JStr ''ERROR'')"
  shows "\<exists>update message chat_id.
           req = Inr update \<and> message_of update = Inr message
           \<and> chat_id_of message = Inr chat_id
           \<and> filter is_created evs = []
           \<and> filter is_sent evs
               = [Sent chat_id
                    (''*Extraction Failed!* '' @ CRYING @ '' '' @ NL @ ''_Details_: ''
                     @ py_str env
                         (case map_of d ''Description'' of None \<Rightarrow> JStr ''N/A'' | Some v \<Rightarrow> v))]
           \<and> (\<forall>s. map_of d ''Description'' = Some (JStr s) \<longrightarrow>
                  filter is_sent evs
                    = [Sent chat_id
                         (''*Extraction Failed!* '' @ CRYING @ '' '' @ NL @ ''_Details_: '' @ s)])
           \<and> (map_of d ''Description'' = None \<longrightarrow>
                  filter is_sent evs
                    = [Sent chat_id
                         (''*Extraction Failed!* '' @ CRYING @ '' '' @ NL @ ''_Details_: N/A'')])"
proof -
  let ?descr = "case map_of d ''Description'' of None \<Rightarrow> JStr ''N/A'' | Some v \<Rightarrow> v"
  let ?text = "''*Extraction Failed!* '' @ CRYING @ '' '' @ NL @ ''_Details_: ''
               @ py_str env ?descr"
  have msg: "extraction_failed_text env ?descr = ?text"
    by (simp add: extraction_failed_text_def)
  from reaches_extraction [OF assms(1,2)] obtain update message chat_id user_id pre rb trb where
    x: "req = Inr update" "message_of update = Inr message"
       "chat_id_of message = Inr chat_id"
       "\<forall>ev \<in> set pre. is_download ev"
       "extraction_section env chat_id user_id (isoformat (clock_now env) @ ''Z'')
          parts pre = (rb, trb)"
       "webhook_body env req [] = (rb, trb)"
    by blast
  from x(5) extraction_error_path [OF assms(3,4)]
  have trb: "trb = pre @ [Extract parts, Sent chat_id ?text]"
    by (simp add: msg)
  have pre_c: "filter is_created pre = []" and pre_s: "filter is_sent pre = []"
    using x(4) download_kind by (auto simp: filter_empty_conv)
  have "evs = trb \<or> (\<exists>m. evs = trb @ [Logged m])"
    using assms(1) x(6) by (auto simp: handle_unfold split: sum.splits)
  then have out: "filter is_created evs = []" "filter is_sent evs = [Sent chat_id ?text]"
    using trb pre_c pre_s by auto
  have str: "\<forall>s. map_of d ''Description'' = Some (JStr s) \<longrightarrow>
               filter is_sent evs
                 = [Sent chat_id
                      (''*Extraction Failed!* '' @ CRYING @ '' '' @ NL @ ''_Details_: '' @ s)]"
    using out(2) by (simp add: py_str_def)
  have none: "map_of d ''Description'' = None \<longrightarrow>
               filter is_sent evs
                 = [Sent chat_id
                      (''*Extraction Failed!* '' @ CRYING @ '' '' @ NL @ ''_Details_: N/A'')]"
    using out(2) by (simp add: py_str_def)
  show ?thesis
    apply (rule exI [of _ update], rule exI [of _ message], rule exI [of _ chat_id])
    apply (intro conjI)
    apply (rule x(1) x(2) x(3) out str none)+
    done
qed

text \<open>The text \<open>220 pizza\<close>, answered by the service with the sentinel.\<close>

theorem error_sentinel_not_persisted_witness:
  "filter is_created
     (snd (handle_telegram_webhook
             (sample_env (\<lambda>_. Inr (JObj [(''Category'', JStr ''ERROR''),
                                        (''Description'', JStr ''Failed to process input.''),
                                        (''Amount'', JStr ''0.00'')])) [])
             (Inr (sample_update [(''text'', JStr ''220 pizza'')])) [])) = []
   \<and> filter is_sent
     (snd (handle_telegram_webhook
             (sample_env (\<lambda>_. Inr (JObj [(''Category'', JStr ''ERROR''),
                                        (''Description'', JStr ''Failed to process input.''),
                                        (''Amount'', JStr ''0.00'')])) [])
             (Inr (sample_update [(''text'', JStr ''220 pizza'')])) []))
     = [Sent (JNum 7)
          (''*Extraction Failed!* '' @ CRYING @ '' '' @ NL
           @ ''_Details_: Failed to process input.'')]"
proof -
  let ?d = "[(''Category'', JStr ''ERROR''),
             (''Description'', JStr ''Failed to process input.''),
             (''Amount'', JStr ''0.00'')]"
  let ?env = "sample_env (\<lambda>_. Inr (JObj ?d)) []"
  let ?req = "Inr (sample_update [(''text'', JStr ''220 pizza'')]) :: exn + jval"
  let ?parts = "[PRaw (JStr ''220 pizza'')]"
  obtain r evs where h: "handle_telegram_webhook ?env ?req [] = (r, evs)"
    by force
  have run: "Extract ?parts \<in> set (snd (handle_telegram_webhook ?env ?req []))"
    by (simp add: handle_unfold webhook_body_def command_section_def input_section_def
          download_section_def extraction_section_def extract_expense_details_def
          send_telegram_message_def io_defs sample_env_def sample_update_def
          py_contains_def py_getitem_def py_get_def py_startswith_def py_len_def py_truthy_def
          bind_sum_def MAX_TEXT_CHARS_def)
  with h have ex: "Extract ?parts \<in> set evs"
    by auto
  have g: "generate_content ?env ?parts = Inr (JObj ?d)"
    by (simp add: sample_env_def)
  have c: "map_of ?d ''Category'' = Some (JStr ''ERROR'')"
    by simp
  have ds: "map_of ?d ''Description'' = Some (JStr ''Failed to process input.'')"
    by simp
  from error_sentinel_not_persisted [OF h ex g c] obtain chat_id where
    k: "chat_id_of (JObj ([(''chat'', JObj [(''id'', JNum 7)]),
                           (''from'', JObj [(''id'', JNum 9)])] @ [(''text'', JStr ''220 pizza'')]))
          = Inr chat_id"
       "filter is_created evs = []"
       "\<forall>s. map_of ?d ''Description'' = Some (JStr s) \<longrightarrow>
            filter is_sent evs
              = [Sent chat_id
                   (''*Extraction Failed!* '' @ CRYING @ '' '' @ NL @ ''_Details_: '' @ s)]"
    by (auto simp: sample_update_def message_of_def py_getitem_def)
  from k(1) have "chat_id = JNum 7"
    by (simp add: chat_id_of_def py_getitem_def bind_sum_def)
  with k(2,3) ds h show ?thesis
    by simp
qed

lemma section_kind:
  "is_extract ev \<or> is_created ev \<Longrightarrow>
     \<not> (is_sent ev \<or> is_listed ev \<or> is_download ev) \<and> \<not> is_logged ev"
  by (cases ev) auto

lemma reaches_section:
  assumes "handle_telegram_webhook env req [] = (r, evs)"
          "\<exists>ev \<in> set evs. is_extract ev \<or> is_created ev"
  shows "\<exists>update message chat_id user_id parts pre rb trb.
           req = Inr update \<and> message_of update = Inr message
           \<and> chat_id_of message = Inr chat_id \<and> user_id_of message = Inr user_id
           \<and> (\<forall>ev \<in> set pre. is_download ev)
           \<and> extraction_section env chat_id user_id (isoformat (clock_now env) @ ''Z'')
                parts pre = (rb, trb)
           \<and> webhook_body env req [] = (rb, trb)"
proof -
  obtain rb trb where b: "webhook_body env req [] = (rb, trb)"
    by force
  have "set evs \<subseteq> set trb \<union> {ev. is_logged ev}"
    using assms(1) b by (auto simp: handle_unfold split: sum.splits)
  moreover from assms(2) obtain ev where ev: "ev \<in> set evs" "is_extract ev \<or> is_created ev"
    by blast
  moreover from ev(2) have "\<not> is_logged ev"
    using section_kind by blast
  ultimately have inb: "ev \<in> set trb" "is_extract ev \<or> is_created ev"
    by auto
  from webhook_body_cases [OF b]
  show ?thesis
  proof
    assume "(\<exists>evs. trb = [] @ evs
               \<and> (\<forall>ev \<in> set evs. is_sent ev \<or> is_listed ev \<or> is_download ev))
            \<and> (\<forall>a. rb = Inr a \<longrightarrow> a = ack_ok)"
    then have "\<forall>ev \<in> set trb. is_sent ev \<or> is_listed ev \<or> is_download ev"
      by simp
    with inb section_kind have False
      by blast
    then show ?thesis ..
  next
    assume "\<exists>update message chat_id user_id parts pre.
               req = Inr update \<and> message_of update = Inr message
               \<and> chat_id_of message = Inr chat_id \<and> user_id_of message = Inr user_id
               \<and> (\<forall>ev \<in> set pre. is_download ev)
               \<and> extraction_section env chat_id user_id (isoformat (clock_now env) @ ''Z'')
                    parts ([] @ pre) = (rb, trb)"
    with b show ?thesis
      by (simp only: append_Nil) blast
  qed
qed

lemma extraction_bad_amount_path:
  assumes "generate_content env parts = Inr (JObj d)"
          "map_of d ''Category'' = Some c" "c \<noteq> JStr ''ERROR''"
          "map_of d ''Description'' = Some descr"
          "map_of d ''Amount'' = Some a" "py_float a = Inl e"
  shows "extraction_section env chat_id user_id current_time parts tr
           = (Inl e, tr @ [Extract parts])"
  using assms
  by (simp add: extraction_section_def extract_expense_details_def io_defs py_get_def
        py_getitem_def bind_sum_def)

lemma extraction_created:
  assumes "extraction_section env chat_id user_id current_time parts tr = (r, tr')"
          "Created ex perms \<in> set tr'" "Created ex perms \<notin> set tr"
  shows "\<exists>d a. generate_content env parts = Inr (JObj d)
           \<and> map_of d ''Category'' = Some (exp_category ex)
           \<and> exp_category ex \<noteq> JStr ''ERROR''
           \<and> map_of d ''Description'' = Some (exp_description ex)
           \<and> map_of d ''Amount'' = Some a \<and> py_float a = Inr (exp_amount ex)
           \<and> exp_telegram_user_id ex = user_id \<and> exp_created_at ex = current_time
           \<and> perms = permissions env user_id"
proof (cases "generate_content env parts")
  case (Inl e)
  with assms show ?thesis
    by (auto simp: extraction_section_def extract_expense_details_def io_defs)
next
  case (Inr x)
  show ?thesis
  proof (cases x)
    case (JObj d)
    with Inr assms show ?thesis
      by (auto simp: extraction_section_def extract_expense_details_def
                     send_telegram_message_def io_defs py_get_def py_getitem_def bind_sum_def
                     Let_def
               split: option.splits if_splits sum.splits)
  qed (use Inr assms in \<open>auto simp: extraction_section_def extract_expense_details_def
         io_defs py_get_def\<close>)
qed

lemmas float_defs =
  py_float_def float_of_string_def strip_def take_sign_def take_number_def digitpart_def
  take_exponent_def digits_value_def scale10_def is_digit_def digit_val_def is_space_def
  lower_char_def Let_def

lemma float_abc: "py_float (JStr ''abc'') = Inl (ValueError ''could not convert string to float'')"
  by (simp add: float_defs)

lemma float_minus_5: "py_float (JStr ''-5'') = Inr (Finite (- 5))"
  by (simp add: float_defs)

lemma float_220: "py_float (JStr ''220.00'') = Inr (Finite 220)"
  by (simp add: float_defs)

lemma float_50: "py_float (JStr ''50'') = Inr (Finite 50)"
  by (simp add: float_defs)

lemmas run_defs =
  handle_unfold webhook_body_def command_section_def input_section_def attachment_def
  download_section_def download_telegram_file_def extraction_section_def
  extract_expense_details_def send_telegram_message_def io_defs sample_env_def
  sample_update_def py_contains_def py_getitem_def py_get_def py_startswith_def py_lower_def
  py_len_def py_truthy_def py_last_def py_gt_def bind_sum_def MAX_TEXT_CHARS_def
  MAX_FILE_SIZE_BYTES_def Let_def

text \<open>
  C2, as stated, fails: for the text \<open>220 pizza\<close> answered with category \<open>Food\<close> and
  amount \<open>abc\<close>, \<open>float\<close> raises ValueError, which only the outer \<open>except\<close> catches: no
  chat message is sent at all, and the body returned has status \<open>error\<close>.
\<close>

theorem unparseable_amount_counterexample:
  "handle_telegram_webhook
     (sample_env (\<lambda>_. Inr (JObj [(''Category'', JStr ''Food''),
                                (''Description'', JStr ''Pizza''),
                                (''Amount'', JStr ''abc'')])) [])
     (Inr (sample_update [(''text'', JStr ''220 pizza'')])) []
   = (Inr [(''status'', ''error''),
           (''message'',
            unexpected_error_text (ValueError ''could not convert string to float''))],
      [Extract [PRaw (JStr ''220 pizza'')],
       Logged (unexpected_error_text (ValueError ''could not convert string to float''))])
   \<and> filter is_sent
        [Extract [PRaw (JStr ''220 pizza'')],
         Logged (unexpected_error_text (ValueError ''could not convert string to float''))]
       = []"
  by (simp add: run_defs float_abc)

text \<open>
  C2, amended. Whenever the extraction call of a delivery returns an object whose
  \<open>Category\<close> is not \<open>"ERROR"\<close>, that has a \<open>Description\<close>, and whose \<open>Amount\<close> cannot
  be converted by \<open>float\<close>, no document is created and no chat message is sent: the
  exception goes to the outer \<open>except\<close>, which logs it and returns the body with status
  \<open>error\<close>.
\<close>

theorem unparseable_amount_is_unhandled:
  assumes "handle_telegram_webhook env req [] = (r, evs)"
      and "Extract parts \<in> set evs"
      and "generate_content env parts = Inr (JObj d)"
      and "map_of d ''Category'' = Some c" and "c \<noteq> JStr ''ERROR''"
      and "map_of d ''Description'' = Some descr"
      and "map_of d ''Amount'' = Some a" and "py_float a = Inl e"
  shows "filter is_created evs = [] \<and> filter is_sent evs = []
         \<and> r = Inr [(''status'', ''error''), (''message'', unexpected_error_text e)]
         \<and> (\<exists>pre. (\<forall>ev \<in> set pre. is_download ev)
               \<and> evs = pre @ [Extract parts, Logged (unexpected_error_text e)])"
proof -
  from reaches_extraction [OF assms(1,2)] obtain chat_id user_id pre rb trb where
    x: "\<forall>ev \<in> set pre. is_download ev"
       "extraction_section env chat_id user_id (isoformat (clock_now env) @ ''Z'')
          parts pre = (rb, trb)"
       "webhook_body env req [] = (rb, trb)"
    by blast
  from x(2) extraction_bad_amount_path [OF assms(3-8)]
  have rb: "rb = Inl e" "trb = pre @ [Extract parts]"
    by simp_all
  have pre_c: "filter is_created pre = []" and pre_s: "filter is_sent pre = []"
    using x(1) download_kind by (auto simp: filter_empty_conv)
  from assms(1) x(3) rb
  have out: "r = Inr [(''status'', ''error''), (''message'', unexpected_error_text e)]"
            "evs = pre @ [Extract parts, Logged (unexpected_error_text e)]"
    by (simp_all add: handle_unfold)
  with pre_c pre_s x(1) show ?thesis
    by auto
qed

theorem unparseable_amount_is_unhandled_witness:
  "fst (handle_telegram_webhook
     (sample_env (\<lambda>_. Inr (JObj [(''Category'', JStr ''Travel''),
                                (''Description'', JStr ''Taxi''),
                                (''Amount'', JStr ''abc'')])) [])
     (Inr (sample_update [(''text'', JStr ''taxi to airport'')])) [])
   = Inr [(''status'', ''error''),
          (''message'',
           unexpected_error_text (ValueError ''could not convert string to float''))]"
proof -
  let ?d = "[(''Category'', JStr ''Travel''), (''Description'', JStr ''Taxi''),
             (''Amount'', JStr ''abc'')]"
  let ?env = "sample_env (\<lambda>_. Inr (JObj ?d)) []"
  let ?req = "Inr (sample_update [(''text'', JStr ''taxi to airport'')]) :: exn + jval"
  let ?parts = "[PRaw (JStr ''taxi to airport'')]"
  obtain r evs where h: "handle_telegram_webhook ?env ?req [] = (r, evs)"
    by force
  have "Extract ?parts \<in> set (snd (handle_telegram_webhook ?env ?req []))"
    by (simp add: run_defs float_abc)
  with h have ex: "Extract ?parts \<in> set evs"
    by simp
  have g: "generate_content ?env ?parts = Inr (JObj ?d)"
    by (simp add: sample_env_def)
  have "r = Inr [(''status'', ''error''),
                 (''message'',
                  unexpected_error_text (ValueError ''could not convert string to float''))]"
    using unparseable_amount_is_unhandled
            [OF h ex g, of "JStr ''Travel''" "JStr ''Taxi''" "JStr ''abc''"
               "ValueError ''could not convert string to float''"]
    by (simp add: float_abc)
  with h show ?thesis
    by simp
qed

text \<open>
  C3, as stated, fails: for the answer with category \<open>Groceries\<close> and amount \<open>-5\<close> the
  handler creates a document whose category is none of the seven names and whose amount
  is negative.
\<close>

theorem created_record_counterexample:
  "handle_telegram_webhook
     (sample_env (\<lambda>_. Inr (JObj [(''Category'', JStr ''Groceries''),
                                (''Description'', JStr ''refund''),
                                (''Amount'', JStr ''-5'')])) [])
     (Inr (sample_update [(''text'', JStr ''refund 5'')])) []
   = (Inr ack_ok,
      [Extract [PRaw (JStr ''refund 5'')],
       Created \<lparr>exp_telegram_user_id = JNum 9, exp_category = JStr ''Groceries'',
                exp_description = JStr ''refund'', exp_amount = Finite (- 5),
                exp_created_at =
                  isoformat \<lparr>dt_date = Date 739924, dt_hour = 10, dt_minute = 30,
                             dt_second = 0, dt_microsecond = 0\<rparr> @ ''Z''\<rparr>
         (permissions
            (sample_env (\<lambda>_. Inr (JObj [(''Category'', JStr ''Groceries''),
                                       (''Description'', JStr ''refund''),
                                       (''Amount'', JStr ''-5'')])) [])
            (JNum 9)),
       Sent (JNum 7)
         (expense_saved_text
            (sample_env (\<lambda>_. Inr (JObj [(''Category'', JStr ''Groceries''),
                                       (''Description'', JStr ''refund''),
                                       (''Amount'', JStr ''-5'')])) [])
            \<lparr>exp_telegram_user_id = JNum 9, exp_category = JStr ''Groceries'',
             exp_description = JStr ''refund'', exp_amount = Finite (- 5),
             exp_created_at =
               isoformat \<lparr>dt_date = Date 739924, dt_hour = 10, dt_minute = 30,
                          dt_second = 0, dt_microsecond = 0\<rparr> @ ''Z''\<rparr>)])
   \<and> JStr ''Groceries'' \<notin> set (map JStr [''Food'', ''Travel'', ''Study'', ''Shopping'',
                                          ''Utility'', ''Subscription'', ''Other''])
   \<and> (- 5 :: real) < 0"
proof -
  let ?g = "\<lambda>_ :: part list. Inr (JObj [(''Category'', JStr ''Groceries''),
                                (''Description'', JStr ''refund''),
                                (''Amount'', JStr ''-5'')]) :: exn + jval"
  have p: "permissions (sample_env ?g []) (JNum 9) = permissions (sample_env ?g []) (JNum 9)"
    by simp
  have "handle_telegram_webhook (sample_env ?g [])
          (Inr (sample_update [(''text'', JStr ''refund 5'')])) []
        = (Inr ack_ok,
      [Extract [PRaw (JStr ''refund 5'')],
       Created \<lparr>exp_telegram_user_id = JNum 9, exp_category = JStr ''Groceries'',
                exp_description = JStr ''refund'', exp_amount = Finite (- 5),
                exp_created_at =
                  isoformat \<lparr>dt_date = Date 739924, dt_hour = 10, dt_minute = 30,
                             dt_second = 0, dt_microsecond = 0\<rparr> @ ''Z''\<rparr>
         (permissions (sample_env ?g []) (JNum 9)),
       Sent (JNum 7)
         (expense_saved_text (sample_env ?g [])
            \<lparr>exp_telegram_user_id = JNum 9, exp_category = JStr ''Groceries'',
             exp_description = JStr ''refund'', exp_amount = Finite (- 5),
             exp_created_at =
               isoformat \<lparr>dt_date = Date 739924, dt_hour = 10, dt_minute = 30,
                          dt_second = 0, dt_microsecond = 0\<rparr> @ ''Z''\<rparr>)])"
    by (simp add: run_defs float_minus_5 permissions_def expense_saved_text_def py_str_def)
  then show ?thesis
    by simp
qed

text \<open>
  C3, amended. Every expense record passed to the create call was built from the answer
  of the extraction call of the same delivery: its category is the answer's \<open>Category\<close>,
  which is any value other than \<open>"ERROR"\<close> (it is not compared with the seven names);
  its description is the answer's \<open>Description\<close>; its amount is \<open>float\<close> of the answer's
  \<open>Amount\<close>, whatever its sign; its user is the sender of the message, its time stamp is
  the clock's, and its permissions are the sender's.
\<close>

theorem created_record_from_extraction:
  assumes "handle_telegram_webhook env req [] = (r, evs)"
      and "Created ex perms \<in> set evs"
  shows "\<exists>update message user_id parts d a.
           req = Inr update \<and> message_of update = Inr message
           \<and> user_id_of message = Inr user_id
           \<and> Extract parts \<in> set evs
           \<and> generate_content env parts = Inr (JObj d)
           \<and> map_of d ''Category'' = Some (exp_category ex)
           \<and> exp_category ex \<noteq> JStr ''ERROR''
           \<and> map_of d ''Description'' = Some (exp_description ex)
           \<and> map_of d ''Amount'' = Some a \<and> py_float a = Inr (exp_amount ex)
           \<and> exp_telegram_user_id ex = user_id
           \<and> exp_created_at ex = isoformat (clock_now env) @ ''Z''
           \<and> perms = permissions env user_id"
proof -
  have "\<exists>ev \<in> set evs. is_extract ev \<or> is_created ev"
    using assms(2) by force
  from reaches_section [OF assms(1) this]
  obtain update message chat_id user_id parts pre rb trb where
    x: "req = Inr update" "message_of update = Inr message"
       "user_id_of message = Inr user_id"
       "\<forall>ev \<in> set pre. is_download ev"
       "extraction_section env chat_id user_id (isoformat (clock_now env) @ ''Z'')
          parts pre = (rb, trb)"
       "webhook_body env req [] = (rb, trb)"
    by blast
  have evs: "evs = trb \<or> (\<exists>m. evs = trb @ [Logged m])"
    using assms(1) x(6) by (auto simp: handle_unfold split: sum.splits)
  with assms(2) have in_trb: "Created ex perms \<in> set trb"
    by auto
  have not_pre: "Created ex perms \<notin> set pre"
    using x(4) by force
  from extraction_section_events [OF x(5)] evs have ext: "Extract parts \<in> set evs"
    by auto
  from extraction_created [OF x(5) in_trb not_pre] x(1-3) ext
  show ?thesis
    by blast
qed

theorem created_record_from_extraction_witness:
  "\<exists>ex perms.
     Created ex perms
       \<in> set (snd (handle_telegram_webhook
                      (sample_env (\<lambda>_. Inr (JObj [(''Category'', JStr ''Food''),
                                                 (''Description'', JStr ''Pizza''),
                                                 (''Amount'', JStr ''220.00'')])) [])
                      (Inr (sample_update [(''text'', JStr ''220 pizza'')])) []))
     \<and> exp_category ex = JStr ''Food'' \<and> exp_amount ex = Finite 220"
proof -
  let ?d = "[(''Category'', JStr ''Food''), (''Description'', JStr ''Pizza''),
             (''Amount'', JStr ''220.00'')]"
  let ?env = "sample_env (\<lambda>_. Inr (JObj ?d)) []"
  let ?req = "Inr (sample_update [(''text'', JStr ''220 pizza'')]) :: exn + jval"
  obtain r evs where h: "handle_telegram_webhook ?env ?req [] = (r, evs)"
    by force
  have "\<exists>ex perms. Created ex perms \<in> set (snd (handle_telegram_webhook ?env ?req []))"
    by (simp add: run_defs float_220)
  with h obtain ex perms where c: "Created ex perms \<in> set evs"
    by auto
  from created_record_from_extraction [OF h c] obtain d a where
    k: "Inr (JObj ?d) = (Inr (JObj d) :: exn + jval)"
       "map_of d ''Category'' = Some (exp_category ex)"
       "map_of d ''Amount'' = Some a" "py_float a = Inr (exp_amount ex)"
    by (auto simp: sample_env_def)
  from k(1) have "d = ?d"
    by simp
  with k(2,3) have ca: "exp_category ex = JStr ''Food''" "a = JStr ''220.00''"
    by simp_all
  from k(4) ca(2) have "exp_amount ex = Finite 220"
    by (simp add: float_220)
  note ca(1) this
  with c h show ?thesis
    by auto
qed

subsection \<open>The classification of the input\<close>

lemma getitem_contains: "py_getitem x k = Inr v \<Longrightarrow> py_contains k x = Inr True"
  by (cases x) (auto simp: py_getitem_def py_contains_def split: option.splits)

lemma handle_appends_log:
  assumes "webhook_body env req tr = (rb, trb)"
  shows "\<exists>r lg. handle_telegram_webhook env req tr = (r, trb @ lg)
                \<and> (\<forall>ev \<in> set lg. is_logged ev)
                \<and> (\<forall>a. rb = Inr a \<longrightarrow> r = Inr a \<and> lg = [])"
  using assms by (cases rb) (simp_all add: handle_unfold)

text \<open>
  C6: the code evaluated at the text \<open>/help\<close>. The text begins with the command prefix,
  part A handles none of its four commands and falls through, and part B takes the text
  as extraction input: the extraction service is called with \<open>/help\<close> and its answer is
  stored.
\<close>

theorem unknown_command_reaches_extraction:
  "is_prefix ''/'' ''/help''
   \<and> handle_telegram_webhook
       (sample_env (\<lambda>_. Inr (JObj [(''Category'', JStr ''Other''),
                                  (''Description'', JStr ''help''),
                                  (''Amount'', JStr ''50'')])) [])
       (Inr (sample_update [(''text'', JStr ''/help'')])) []
     = (Inr ack_ok,
        [Extract [PRaw (JStr ''/help'')],
         Created \<lparr>exp_telegram_user_id = JNum 9, exp_category = JStr ''Other'',
                  exp_description = JStr ''help'', exp_amount = Finite 50,
                  exp_created_at =
                    isoformat \<lparr>dt_date = Date 739924, dt_hour = 10, dt_minute = 30,
                               dt_second = 0, dt_microsecond = 0\<rparr> @ ''Z''\<rparr>
           (permissions
              (sample_env (\<lambda>_. Inr (JObj [(''Category'', JStr ''Other''),
                                         (''Description'', JStr ''help''),
                                         (''Amount'', JStr ''50'')])) [])
              (JNum 9)),
         Sent (JNum 7)
           (expense_saved_text
              (sample_env (\<lambda>_. Inr (JObj [(''Category'', JStr ''Other''),
                                         (''Description'', JStr ''help''),
                                         (''Amount'', JStr ''50'')])) [])
              \<lparr>exp_telegram_user_id = JNum 9, exp_category = JStr ''Other'',
               exp_description = JStr ''help'', exp_amount = Finite 50,
               exp_created_at =
                 isoformat \<lparr>dt_date = Date 739924, dt_hour = 10, dt_minute = 30,
                            dt_second = 0, dt_microsecond = 0\<rparr> @ ''Z''\<rparr>)])"
  by (simp add: run_defs float_50 permissions_def expense_saved_text_def py_str_def
        lower_char_def)

lemma text_path:
  assumes "message_of update = Inr (JObj m)"
      and "chat_id_of (JObj m) = Inr chat_id" and "user_id_of (JObj m) = Inr user_id"
      and "map_of m ''photo'' = None" and "map_of m ''document'' = None"
      and "map_of m ''text'' = Some (JStr t)" and "\<not> is_prefix ''/'' t"
  shows "webhook_body env (Inr update) tr =
           (if length t > MAX_TEXT_CHARS
            then bind_io (send_telegram_message env chat_id (text_too_long_text (length t)))
                   (\<lambda>_. ret ack_ok) tr
            else extraction_section env chat_id user_id (isoformat (clock_now env) @ ''Z'')
                   [PRaw (JStr t)] tr)"
proof -
  have has: "py_contains ''message'' update = Inr True"
    using assms(1) by (simp add: message_of_def getitem_contains)
  have c: "command_section env (JObj m) chat_id user_id tr = (Inr None, tr)"
    using assms(6,7)
    by (simp add: command_section_def io_defs py_contains_def py_getitem_def
          py_startswith_def bind_sum_def)
  have i: "input_section env (JObj m) chat_id tr =
             (if length t > MAX_TEXT_CHARS
              then bind_io (send_telegram_message env chat_id (text_too_long_text (length t)))
                     (\<lambda>_. ret (Return ack_ok)) tr
              else (Inr (Continue ([PRaw (JStr t)], JNull, JNull)), tr))"
    using assms(4-6)
    by (simp add: input_section_def io_defs py_contains_def py_getitem_def py_len_def)
  show ?thesis
    using assms(1-3) has c i
    by (simp add: webhook_body_def io_defs message_of_def chat_id_of_def user_id_of_def
          download_section_def py_truthy_def send_telegram_message_def
          split: option.splits)
qed

lemma str_nat_500: "str_nat 500 = ''500''"
  by (simp add: str_nat.simps digit_char_def)

lemma str_nat_501: "str_nat 501 = ''501''"
  by (simp add: str_nat.simps digit_char_def)

text \<open>
  C9. For a message with a text body that does not begin with \<open>/\<close> and no photo or
  document: a text of exactly 500 characters is passed to the extraction service as the
  only prompt part, the first thing the handler does; a text of 501 characters is answered
  with the length-error message, which quotes 501 and 500, and nothing else happens
  except, when sending fails, the log line: no extraction is attempted.
\<close>

theorem text_limit_boundary:
  assumes "message_of update = Inr (JObj m)"
      and "chat_id_of (JObj m) = Inr chat_id" and "user_id_of (JObj m) = Inr user_id"
      and "map_of m ''photo'' = None" and "map_of m ''document'' = None"
      and "map_of m ''text'' = Some (JStr t)" and "\<not> is_prefix ''/'' t"
  shows "(length t = 500 \<longrightarrow>
            (\<exists>r evs. handle_telegram_webhook env (Inr update) []
                        = (r, Extract [PRaw (JStr t)] # evs)))
         \<and> (length t = 501 \<longrightarrow>
              (\<exists>r evs. handle_telegram_webhook env (Inr update) []
                          = (r, Sent chat_id (text_too_long_text 501) # evs)
                        \<and> (\<forall>ev \<in> set evs. is_logged ev))
              \<and> text_too_long_text 501
                  = CROSS @ '' *Text Too Long!* Your input has 501 characters, exceeding the limit of 500. Please summarize your expense details.'')"
proof (intro conjI impI)
  assume len: "length t = 500"
  let ?ct = "isoformat (clock_now env) @ ''Z''"
  obtain rb trb where e: "extraction_section env chat_id user_id ?ct [PRaw (JStr t)] [] = (rb, trb)"
    by force
  with len have b: "webhook_body env (Inr update) [] = (rb, trb)"
    using text_path [OF assms, of env "[]"] by (simp add: MAX_TEXT_CHARS_def)
  from extraction_section_events [OF e] obtain evs where
    t: "trb = Extract [PRaw (JStr t)] # evs"
    by auto
  from handle_appends_log [OF b] t
  show "\<exists>r evs. handle_telegram_webhook env (Inr update) []
                   = (r, Extract [PRaw (JStr t)] # evs)"
    by auto
next
  assume len: "length t = 501"
  let ?text = "text_too_long_text 501"
  have b: "webhook_body env (Inr update) [] =
             ((case post_raises env chat_id ?text of Some e \<Rightarrow> Inl e | None \<Rightarrow> Inr ack_ok),
              [Sent chat_id ?text])"
    using text_path [OF assms, of env "[]"] len
    by (simp add: MAX_TEXT_CHARS_def send_telegram_message_def io_defs split: option.splits)
  from handle_appends_log [OF b]
  show "\<exists>r evs. handle_telegram_webhook env (Inr update) []
                   = (r, Sent chat_id ?text # evs)
                 \<and> (\<forall>ev \<in> set evs. is_logged ev)"
    by auto
next
  assume "length t = 501"
  show "text_too_long_text 501
          = CROSS @ '' *Text Too Long!* Your input has 501 characters, exceeding the limit of 500. Please summarize your expense details.''"
    by (simp add: text_too_long_text_def MAX_TEXT_CHARS_def str_nat_500 str_nat_501)
qed

theorem text_limit_boundary_witness:
  "(\<exists>r evs. handle_telegram_webhook (sample_env (\<lambda>_. Inr JNull) [])
                (Inr (sample_update [(''text'', JStr (CHR ''a'' # replicate 499 (CHR ''a'')))])) []
              = (r, Extract [PRaw (JStr (CHR ''a'' # replicate 499 (CHR ''a'')))] # evs))
   \<and> (\<exists>r evs. handle_telegram_webhook (sample_env (\<lambda>_. Inr JNull) [])
                  (Inr (sample_update [(''text'', JStr (CHR ''a'' # replicate 500 (CHR ''a'')))])) []
                = (r, Sent (JNum 7) (text_too_long_text 501) # evs))"
proof -
  let ?env = "sample_env (\<lambda>_. Inr JNull) []"
  have hyps: "message_of (sample_update [(''text'', JStr t)])
                = Inr (JObj [(''chat'', JObj [(''id'', JNum 7)]),
                             (''from'', JObj [(''id'', JNum 9)]), (''text'', JStr t)])"
       "chat_id_of (JObj [(''chat'', JObj [(''id'', JNum 7)]),
                          (''from'', JObj [(''id'', JNum 9)]), (''text'', JStr t)]) = Inr (JNum 7)"
       "user_id_of (JObj [(''chat'', JObj [(''id'', JNum 7)]),
                          (''from'', JObj [(''id'', JNum 9)]), (''text'', JStr t)]) = Inr (JNum 9)"
       "map_of [(''chat'', JObj [(''id'', JNum 7)]),
                (''from'', JObj [(''id'', JNum 9)]), (''text'', JStr t)] ''photo'' = None"
       "map_of [(''chat'', JObj [(''id'', JNum 7)]),
                (''from'', JObj [(''id'', JNum 9)]), (''text'', JStr t)] ''document'' = None"
       "map_of [(''chat'', JObj [(''id'', JNum 7)]),
                (''from'', JObj [(''id'', JNum 9)]), (''text'', JStr t)] ''text'' = Some (JStr t)"
    for t
    by (simp_all add: sample_update_def message_of_def chat_id_of_def user_id_of_def
          py_getitem_def bind_sum_def)
  have a: "\<not> is_prefix ''/'' (CHR ''a'' # replicate n (CHR ''a''))" for n
    by simp
  have l500: "length (CHR ''a'' # replicate 499 (CHR ''a'')) = 500"
    and l501: "length (CHR ''a'' # replicate 500 (CHR ''a'')) = 501"
    by simp_all
  from text_limit_boundary [OF hyps a, of 499 ?env] l500
  have one: "\<exists>r evs. handle_telegram_webhook ?env
                (Inr (sample_update [(''text'', JStr (CHR ''a'' # replicate 499 (CHR ''a'')))])) []
              = (r, Extract [PRaw (JStr (CHR ''a'' # replicate 499 (CHR ''a'')))] # evs)"
    by blast
  from text_limit_boundary [OF hyps a, of 500 ?env] l501
  have two: "\<exists>r evs. handle_telegram_webhook ?env
                  (Inr (sample_update [(''text'', JStr (CHR ''a'' # replicate 500 (CHR ''a'')))])) []
                = (r, Sent (JNum 7) (text_too_long_text 501) # evs)"
    by blast
  from one two show ?thesis
    by (rule conjI)
qed

lemma attachment_path:
  assumes "message_of update = Inr (JObj m)"
      and "chat_id_of (JObj m) = Inr chat_id" and "user_id_of (JObj m) = Inr user_id"
      and "map_of m ''text'' = None"
      and "(map_of m ''photo'' = Some (JArr ps) \<and> ps \<noteq> [] \<and> last ps = JObj pd)
           \<or> (map_of m ''photo'' = None \<and> map_of m ''document'' = Some (JObj pd))"
      and "map_of pd ''file_size'' = None" and "map_of pd ''file_id'' = Some fid"
  shows "input_section env (JObj m) chat_id tr
           = (Inr (Continue ([], fid,
                     case map_of m ''caption'' of None \<Rightarrow> JNull | Some c \<Rightarrow> c)), tr)"
    and "webhook_body env (Inr update) tr
           = bind_io (download_section env chat_id [] fid
                        (case map_of m ''caption'' of None \<Rightarrow> JNull | Some c \<Rightarrow> c))
               (\<lambda>ready. case ready of
                    Return a \<Rightarrow> ret a
                  | Continue parts \<Rightarrow>
                      extraction_section env chat_id user_id
                        (isoformat (clock_now env) @ ''Z'') parts) tr"
proof -
  let ?cap = "case map_of m ''caption'' of None \<Rightarrow> JNull | Some c \<Rightarrow> c"
  have att: "attachment env (JObj m) chat_id (JObj pd) tr = (Inr (Continue ([], fid, ?cap)), tr)"
    using assms(6,7)
    by (simp add: attachment_def io_defs py_get_def py_gt_def py_getitem_def bind_sum_def
          MAX_FILE_SIZE_BYTES_def)
  show i: "input_section env (JObj m) chat_id tr = (Inr (Continue ([], fid, ?cap)), tr)"
    using assms(5) att
    by (auto simp: input_section_def io_defs py_contains_def py_getitem_def py_last_def
          bind_sum_def)
  have has: "py_contains ''message'' update = Inr True"
    using assms(1) by (simp add: message_of_def getitem_contains)
  have c: "command_section env (JObj m) chat_id user_id tr = (Inr None, tr)"
    using assms(4) by (simp add: command_section_def io_defs py_contains_def)
  show "webhook_body env (Inr update) tr
           = bind_io (download_section env chat_id [] fid ?cap)
               (\<lambda>ready. case ready of
                    Return a \<Rightarrow> ret a
                  | Continue parts \<Rightarrow>
                      extraction_section env chat_id user_id
                        (isoformat (clock_now env) @ ''Z'') parts) tr"
    using assms(1-3) has c i
    by (simp add: webhook_body_def io_defs message_of_def chat_id_of_def user_id_of_def)
qed

lemma download_section_starts:
  assumes "py_truthy fid"
      and "download_section env chat_id [] fid cap tr = (r, tr')"
  shows "\<exists>evs. tr' = tr @ GetFile fid # evs"
  using assms
  by (auto simp: download_section_def download_telegram_file_def send_telegram_message_def
                 io_defs Let_def
           split: sum.splits if_splits)

lemma download_section_ok:
  assumes "py_truthy fid" and "get_file env fid = Inr resp"
      and "bind_sum (py_getitem resp ''result'') (\<lambda>r. py_getitem r ''file_path'') = Inr path"
      and "fetch env path = Inr bytes"
      and "py_truthy cap \<longrightarrow> (\<exists>n. py_len cap = Inr n \<and> n \<le> MAX_TEXT_CHARS)"
  shows "download_section env chat_id [] fid cap tr
           = (Inr (Continue [PBytes bytes ''image/jpeg'',
                             PRaw (if py_truthy cap then cap else JStr default_instruction)]),
              tr @ [GetFile fid, Fetch path])"
  using assms
  by (auto simp: download_section_def download_telegram_file_def io_defs Let_def)

text \<open>
  C10. For a message without text that carries a photo (the last element of the array is
  taken) or else a document, whose data has no \<open>file_size\<close> field and has a non-empty
  \<open>file_id\<close>: the size read is the default 0, the comparison with the limit is false, so
  the size check sends nothing and hands on the file handle and the caption; the handler's
  first request is the download of that file; and when the download succeeds and the
  caption, if any, is within the limit, the extraction service is called with the image
  and the caption or the default instruction.
\<close>

theorem missing_file_size_passes:
  assumes "message_of update = Inr (JObj m)"
      and "chat_id_of (JObj m) = Inr chat_id" and "user_id_of (JObj m) = Inr user_id"
      and "map_of m ''text'' = None"
      and "(map_of m ''photo'' = Some (JArr ps) \<and> ps \<noteq> [] \<and> last ps = JObj pd)
           \<or> (map_of m ''photo'' = None \<and> map_of m ''document'' = Some (JObj pd))"
      and "map_of pd ''file_size'' = None" and "map_of pd ''file_id'' = Some fid"
      and "py_truthy fid"
      and "cap = (case map_of m ''caption'' of None \<Rightarrow> JNull | Some c \<Rightarrow> c)"
  shows "py_get (JObj pd) ''file_size'' (JNum 0) = Inr (JNum 0)
         \<and> py_gt (JNum 0) MAX_FILE_SIZE_BYTES = Inr False
         \<and> input_section env (JObj m) chat_id [] = (Inr (Continue ([], fid, cap)), [])
         \<and> (\<exists>r evs. handle_telegram_webhook env (Inr update) [] = (r, GetFile fid # evs))
         \<and> (get_file env fid = Inr resp
              \<and> bind_sum (py_getitem resp ''result'') (\<lambda>r. py_getitem r ''file_path'')
                  = Inr path
              \<and> fetch env path = Inr bytes
              \<and> (py_truthy cap \<longrightarrow> (\<exists>n. py_len cap = Inr n \<and> n \<le> MAX_TEXT_CHARS))
            \<longrightarrow> (\<exists>r evs. handle_telegram_webhook env (Inr update) []
                    = (r, GetFile fid # Fetch path
                          # Extract [PBytes bytes ''image/jpeg'',
                                     PRaw (if py_truthy cap then cap
                                           else JStr default_instruction)]
                          # evs)))"
proof (intro conjI impI)
  show "py_get (JObj pd) ''file_size'' (JNum 0) = Inr (JNum 0)"
    using assms(6) by (simp add: py_get_def)
  show "py_gt (JNum 0) MAX_FILE_SIZE_BYTES = Inr False"
    by (simp add: py_gt_def MAX_FILE_SIZE_BYTES_def)
  show "input_section env (JObj m) chat_id [] = (Inr (Continue ([], fid, cap)), [])"
    using attachment_path(1) [OF assms(1-7)] assms(9) by simp
next
  let ?ct = "isoformat (clock_now env) @ ''Z''"
  let ?k = "\<lambda>ready. case ready of
                 Return a \<Rightarrow> ret a
               | Continue parts \<Rightarrow> extraction_section env chat_id user_id ?ct parts"
  have body: "webhook_body env (Inr update) []
                = bind_io (download_section env chat_id [] fid cap) ?k []"
    using attachment_path(2) [OF assms(1-7)] assms(9) by simp
  obtain rd trd where d: "download_section env chat_id [] fid cap [] = (rd, trd)"
    by force
  from download_section_starts [OF assms(8) d] obtain evs1 where
    t1: "trd = GetFile fid # evs1"
    by auto
  obtain rb trb where b: "webhook_body env (Inr update) [] = (rb, trb)"
    by force
  have "\<exists>evs2. trb = trd @ evs2"
  proof (cases rd)
    case (Inl e)
    with body d b show ?thesis
      by (simp add: io_defs)
  next
    case (Inr ready)
    show ?thesis
    proof (cases ready)
      case (Return a)
      with Inr body d b show ?thesis
        by (simp add: io_defs)
    next
      case (Continue parts)
      with Inr body d b
      have "extraction_section env chat_id user_id ?ct parts trd = (rb, trb)"
        by (simp add: io_defs)
      from extraction_section_events [OF this] show ?thesis
        by auto
    qed
  qed
  with t1 obtain evs2 where "trb = GetFile fid # evs1 @ evs2"
    by auto
  with handle_appends_log [OF b]
  show "\<exists>r evs. handle_telegram_webhook env (Inr update) [] = (r, GetFile fid # evs)"
    by auto
next
  assume ok: "get_file env fid = Inr resp
              \<and> bind_sum (py_getitem resp ''result'') (\<lambda>r. py_getitem r ''file_path'')
                  = Inr path
              \<and> fetch env path = Inr bytes
              \<and> (py_truthy cap \<longrightarrow> (\<exists>n. py_len cap = Inr n \<and> n \<le> MAX_TEXT_CHARS))"
  let ?ct = "isoformat (clock_now env) @ ''Z''"
  let ?parts = "[PBytes bytes ''image/jpeg'',
                 PRaw (if py_truthy cap then cap else JStr default_instruction)]"
  from ok have o1: "get_file env fid = Inr resp"
    and o2: "bind_sum (py_getitem resp ''result'') (\<lambda>r. py_getitem r ''file_path'')
               = Inr path"
    and o3: "fetch env path = Inr bytes"
    and o4: "py_truthy cap \<longrightarrow> (\<exists>n. py_len cap = Inr n \<and> n \<le> MAX_TEXT_CHARS)"
    by blast+
  have d: "download_section env chat_id [] fid cap []
             = (Inr (Continue ?parts), [] @ [GetFile fid, Fetch path])"
    by (rule download_section_ok [OF assms(8) o1 o2 o3 o4])
  obtain rb trb where e: "extraction_section env chat_id user_id ?ct ?parts
                            [GetFile fid, Fetch path] = (rb, trb)"
    by force
  have b: "webhook_body env (Inr update) [] = (rb, trb)"
    using attachment_path(2) [OF assms(1-7), of env "[]"] assms(9) d e
    by (simp add: io_defs)
  from extraction_section_events [OF e] obtain evs where
    "trb = [GetFile fid, Fetch path] @ Extract ?parts # evs"
    by blast
  with handle_appends_log [OF b]
  show "\<exists>r evs. handle_telegram_webhook env (Inr update) []
                    = (r, GetFile fid # Fetch path # Extract ?parts # evs)"
    by auto
qed

text \<open>A photo in two sizes, neither with a \<open>file_size\<close>, and the caption \<open>lunch\<close>.\<close>

theorem missing_file_size_passes_witness:
  "\<exists>r evs. handle_telegram_webhook (sample_env (\<lambda>_. Inr JNull) [])
              (Inr (sample_update
                      [(''photo'', JArr [JObj [(''file_id'', JStr ''small'')],
                                        JObj [(''file_id'', JStr ''large''),
                                              (''width'', JNum 1280)]]),
                       (''caption'', JStr ''lunch'')])) []
            = (r, GetFile (JStr ''large'') # Fetch (JStr ''photos/file_1.jpg'')
                  # Extract [PBytes ''jpg'' ''image/jpeg'', PRaw (JStr ''lunch'')] # evs)"
proof -
  let ?env = "sample_env (\<lambda>_. Inr JNull) []"
  let ?ps = "[JObj [(''file_id'', JStr ''small'')],
              JObj [(''file_id'', JStr ''large''), (''width'', JNum 1280)]]"
  let ?pd = "[(''file_id'', JStr ''large''), (''width'', JNum 1280)]"
  let ?m = "[(''chat'', JObj [(''id'', JNum 7)]), (''from'', JObj [(''id'', JNum 9)]),
             (''photo'', JArr ?ps), (''caption'', JStr ''lunch'')]"
  let ?update = "sample_update [(''photo'', JArr ?ps), (''caption'', JStr ''lunch'')]"
  let ?resp = "JObj [(''ok'', JBool True),
                     (''result'', JObj [(''file_path'', JStr ''photos/file_1.jpg'')])]"
  have h1: "message_of ?update = Inr (JObj ?m)"
    by (simp add: sample_update_def message_of_def py_getitem_def)
  have h2: "chat_id_of (JObj ?m) = Inr (JNum 7)" and h3: "user_id_of (JObj ?m) = Inr (JNum 9)"
    by (simp_all add: chat_id_of_def user_id_of_def py_getitem_def bind_sum_def)
  have h4: "map_of ?m ''text'' = None"
    by simp
  have h5: "(map_of ?m ''photo'' = Some (JArr ?ps) \<and> ?ps \<noteq> [] \<and> last ?ps = JObj ?pd)
            \<or> (map_of ?m ''photo'' = None \<and> map_of ?m ''document'' = Some (JObj ?pd))"
    by simp
  have h6: "map_of ?pd ''file_size'' = None" and h7: "map_of ?pd ''file_id'' = Some (JStr ''large'')"
    by simp_all
  have h8: "py_truthy (JStr ''large'')"
    by (simp add: py_truthy_def)
  have h9: "JStr ''lunch'' = (case map_of ?m ''caption'' of None \<Rightarrow> JNull | Some c \<Rightarrow> c)"
    by simp
  have ok: "get_file ?env (JStr ''large'') = Inr ?resp
            \<and> bind_sum (py_getitem ?resp ''result'') (\<lambda>r. py_getitem r ''file_path'')
                = Inr (JStr ''photos/file_1.jpg'')
            \<and> fetch ?env (JStr ''photos/file_1.jpg'') = Inr ''jpg''
            \<and> (py_truthy (JStr ''lunch'')
                 \<longrightarrow> (\<exists>n. py_len (JStr ''lunch'') = Inr n \<and> n \<le> MAX_TEXT_CHARS))"
    by (simp add: sample_env_def py_getitem_def bind_sum_def py_len_def MAX_TEXT_CHARS_def)
  have t: "py_truthy (JStr ''lunch'')"
    by (simp add: py_truthy_def)
  from missing_file_size_passes [OF h1 h2 h3 h4 h5 h6 h7 h8 h9,
         of ?env ?resp "JStr ''photos/file_1.jpg''" "''jpg''"] ok t
  show ?thesis
    by simp
qed

end
